theory Spec2Isabelle
  imports Main "HOL-Library.Word"
begin

unbundle bit_operations_syntax

section \<open>Bytes, errors and slices\<close>

text \<open>
  The package \<open>ws\<close> works on Go byte slices. A slice is a list of 8-bit words; a slice
  that may be \<open>nil\<close> (the field \<open>buffer\<close>) is an optional list, \<open>None\<close> being \<open>nil\<close>.
  Go's \<open>int\<close> is taken to be 64 bits wide, as on every 64-bit platform.
\<close>

type_synonym byte = "8 word"

text \<open>An error value is what \<open>errors.New\<close> builds: it carries its message.\<close>

datatype error = errors_New string

text \<open>\<open>io.EOF\<close> is declared in Go as \<open>errors.New("EOF")\<close>.\<close>

definition EOF :: error where
  "EOF = errors_New ''EOF''"

text \<open>
  The builtin \<open>copy(dst, src)\<close> copies \<open>min(len(dst), len(src))\<close> elements to the front
  of \<open>dst\<close> and returns that number. The model returns the number and the new \<open>dst\<close>.
\<close>

definition copy :: "byte list \<Rightarrow> byte list \<Rightarrow> nat \<times> byte list" where
  "copy dst src = (let n = min (length dst) (length src) in (n, take n src @ drop n dst))"

text \<open>
  \<open>make([]byte, n)\<close> yields \<open>n\<close> zero bytes. The Go runtime panics when \<open>n\<close> is
  negative or above its allocation limit (\<open>maxAlloc\<close>, \<open>2^48\<close> bytes on 64-bit Linux);
  \<open>None\<close> is that panic.
\<close>

definition maxAlloc :: int where
  "maxAlloc = 2 ^ 48"

definition make_bytes :: "int \<Rightarrow> byte list option" where
  "make_bytes n = (if n < 0 \<or> maxAlloc < n then None else Some (replicate (nat n) 0))"

text \<open>The value of a 64-bit \<open>int\<close>: two's complement.\<close>

definition go_int :: "64 word \<Rightarrow> int" where
  "go_int w = sint w"

section \<open>Constants of the package\<close>

definition opCodeContinuation :: byte where "opCodeContinuation = 0x0"
definition opCodeText :: byte where "opCodeText = 0x1"
definition opCodeBinary :: byte where "opCodeBinary = 0x2"
definition opCodeClose :: byte where "opCodeClose = 0x8"
definition opCodePing :: byte where "opCodePing = 0x9"
definition opCodePong :: byte where "opCodePong = 0xA"

definition magicWebsocketGUID :: string where
  "magicWebsocketGUID = ''258EAFA5-E914-47DA-95CA-C5AB0DC85B11''"

section \<open>The transport\<close>

text \<open>
  The field \<open>rw\<close> is a \<open>*bufio.ReadWriter\<close>: a reader and a writer. Both belong to the Go
  standard library, so they are parameters of the model. A reader is a state \<open>'r\<close> with
  the function \<open>rd\<close>: \<open>rd r n\<close> is one call of \<open>Read\<close> with a buffer of \<open>n\<close> bytes, and
  returns the bytes delivered, the error, and the next state. As for every \<open>io.Reader\<close>,
  the bytes delivered may be fewer than \<open>n\<close>. A writer is a state \<open>'w\<close> with a function
  for \<open>Write\<close> and one for \<open>Flush\<close>.
\<close>

type_synonym 'r reader = "'r \<Rightarrow> nat \<Rightarrow> byte list \<times> error option \<times> 'r"
type_synonym 'w writer = "'w \<Rightarrow> byte list \<Rightarrow> nat \<times> error option \<times> 'w"
type_synonym 'w flusher = "'w \<Rightarrow> error option \<times> 'w"

text \<open>
  \<open>c.rw.Read(buf)\<close>: the bytes delivered overwrite the front of \<open>buf\<close>, the rest of
  \<open>buf\<close> keeps its contents. The source drops the count (\<open>_, err := c.rw.Read(buf)\<close>),
  so the model returns the buffer, the error and the next reader state only.
\<close>

definition rw_Read :: "'r reader \<Rightarrow> 'r \<Rightarrow> byte list \<Rightarrow> byte list \<times> error option \<times> 'r" where
  "rw_Read rd r buf = (case rd r (length buf) of (got, err, r') \<Rightarrow> (snd (copy buf got), err, r'))"

record ('r, 'w) connImpl =
  rw_Reader :: 'r
  rw_Writer :: 'w
  buffer :: "byte list option"

section \<open>Read\<close>

text \<open>
  What a call of \<open>Read(p)\<close> does when it comes back: it returns a count and an error,
  and leaves the destination \<open>p\<close> and the connection changed; or it panics.
\<close>

datatype ('r, 'w) result =
  Return nat "error option" "byte list" "('r, 'w) connImpl"
| Panic

text \<open>
  The unmasking loop of \<open>Read\<close>:
  \<^verbatim>\<open>for i := 0; i < len(payload); i++ { payload[i] ^= mask[i%4] }\<close>
  (the slice \<open>mask\<close> of the source is \<open>mask_key\<close> here).
\<close>

function unmask_loop :: "nat \<Rightarrow> byte list \<Rightarrow> byte list \<Rightarrow> byte list" where
  "unmask_loop i mask_key payload =
     (if i < length payload
      then unmask_loop (i + 1) mask_key (payload[i := payload ! i XOR mask_key ! (i mod 4)])
      else payload)"
  by pat_completeness auto
termination
  by (relation "measure (\<lambda>(i, mask_key, payload). length payload - i)") auto

declare unmask_loop.simps [simp del]

text \<open>
  The body of \<open>case opCodeText, opCodeBinary\<close>: the extended length, the mask key, the
  payload, the unmasking, and the delivery into \<open>p\<close> with the rest kept in \<open>c.buffer\<close>.
\<close>

definition Read_text_binary ::
    "'r reader \<Rightarrow> ('r, 'w) connImpl \<Rightarrow> byte list \<Rightarrow> int \<Rightarrow> ('r, 'w) result" where
  "Read_text_binary rd c p payloadLength0 =
     (case (if payloadLength0 = 0x7E then
              (case rw_Read rd (rw_Reader c) (replicate 2 0) of (payload, err, r) \<Rightarrow>
                 (err, r, go_int (push_bit 0x08 (ucast (payload ! 0)) OR ucast (payload ! 1))))
            else if payloadLength0 = 0x7F then
              (case rw_Read rd (rw_Reader c) (replicate 8 0) of (payload, err, r) \<Rightarrow>
                 (err, r, go_int (push_bit 0x38 (ucast (payload ! 0)) OR
                                  push_bit 0x30 (ucast (payload ! 1)) OR
                                  push_bit 0x28 (ucast (payload ! 2)) OR
                                  push_bit 0x20 (ucast (payload ! 3)) OR
                                  push_bit 0x18 (ucast (payload ! 4)) OR
                                  push_bit 0x10 (ucast (payload ! 5)) OR
                                  push_bit 0x08 (ucast (payload ! 6)) OR
                                  ucast (payload ! 7))))
            else (None, rw_Reader c, payloadLength0))
      of (err, r, payloadLength) \<Rightarrow>
        if err \<noteq> None then Return 0 err p (c\<lparr>rw_Reader := r\<rparr>)
        else
          (case rw_Read rd r (replicate 4 0) of (mask_key, err, r) \<Rightarrow>
             if err \<noteq> None then Return 0 err p (c\<lparr>rw_Reader := r\<rparr>)
             else
               (case make_bytes payloadLength of
                  None \<Rightarrow> Panic
                | Some payload \<Rightarrow>
                    (case rw_Read rd r payload of (payload, err, r) \<Rightarrow>
                       if err \<noteq> None then Return 0 err p (c\<lparr>rw_Reader := r\<rparr>)
                       else
                         let payload = unmask_loop 0 mask_key payload in
                         if payloadLength > int (length p) then
                           (case copy p payload of (n, p') \<Rightarrow>
                              Return n None p' (c\<lparr>rw_Reader := r, buffer := Some (drop n payload)\<rparr>))
                         else
                           Return (length payload) None (snd (copy p payload))
                             (c\<lparr>rw_Reader := r\<rparr>)))))"

text \<open>
  The \<open>for\<close> loop of \<open>Read\<close>: one frame header per round. A ping or a pong falls out of
  the \<open>switch\<close> and starts the next round; the loop need not end, so the function is
  partial and \<open>None\<close> stands for a call that never comes back.
\<close>

partial_function (option) Read_frames ::
    "'r reader \<Rightarrow> ('r, 'w) connImpl \<Rightarrow> byte list \<Rightarrow> ('r, 'w) result option" where
  "Read_frames rd c p =
     (case rw_Read rd (rw_Reader c) (replicate 2 0) of (frame, err, r) \<Rightarrow>
        if err \<noteq> None then Some (Return 0 err p (c\<lparr>rw_Reader := r\<rparr>))
        else
          let opCode = frame ! 0 AND 0x0F;
              payloadLength = uint (frame ! 1 AND 0x7F)
          in
            if opCode = opCodeText \<or> opCode = opCodeBinary then
              Some (Read_text_binary rd (c\<lparr>rw_Reader := r\<rparr>) p payloadLength)
            else if opCode = opCodePing \<or> opCode = opCodePong then
              Read_frames rd (c\<lparr>rw_Reader := r\<rparr>) p
            else if opCode = opCodeClose then
              Some (Return 0 (Some (errors_New ''connection closed'')) p (c\<lparr>rw_Reader := r\<rparr>))
            else
              Some (Return 0 (Some (errors_New ''unknown opcode'')) p (c\<lparr>rw_Reader := r\<rparr>)))"

text \<open>\<open>func (c *connImpl) Read(p []byte) (int, error)\<close>\<close>

definition Read :: "'r reader \<Rightarrow> ('r, 'w) connImpl \<Rightarrow> byte list \<Rightarrow> ('r, 'w) result option" where
  "Read rd c p =
     (case buffer c of
        Some b \<Rightarrow>
          (case copy p b of (n, p') \<Rightarrow>
             Some (Return n None p'
                     (c\<lparr>buffer := (if n = length b then None else Some (drop n b))\<rparr>)))
      | None \<Rightarrow> Read_frames rd c p)"

section \<open>Write\<close>

text \<open>
  \<open>func getDataFrame(size int) []byte\<close>. The parameter \<open>size\<close> is \<open>sz\<close> here. On an
  \<open>int\<close>, \<open>size >> k\<close> is \<open>drop_bit k\<close>, \<open>size & 0xFF\<close> is \<open>AND\<close>, and the conversion
  \<open>byte(x)\<close> keeps the low 8 bits, which is \<open>word_of_int\<close>. In Go \<open>&\<close> binds tighter
  than \<open>|\<close>, so the first byte is \<open>0x80 | (byte(opCodeText) & 0x0F)\<close>.
\<close>

definition getDataFrame :: "int \<Rightarrow> byte list" where
  "getDataFrame sz =
     (let buffer = [];
          buffer = buffer @ [0x80 OR (opCodeText AND 0x0F)]
      in
        if sz \<le> 125 then
          buffer @ [word_of_int sz]
        else if sz \<le> 65535 then
          buffer @ [126] @ [word_of_int (drop_bit 0x08 sz)] @ [word_of_int (sz AND 0xFF)]
        else
          buffer @ [127]
            @ [word_of_int (drop_bit 0x38 sz)]
            @ [word_of_int (drop_bit 0x30 sz)]
            @ [word_of_int (drop_bit 0x28 sz)]
            @ [word_of_int (drop_bit 0x20 sz)]
            @ [word_of_int (drop_bit 0x18 sz)]
            @ [word_of_int (drop_bit 0x10 sz)]
            @ [word_of_int (drop_bit 0x08 sz)]
            @ [word_of_int (sz AND 0xFF)])"

text \<open>
  \<open>func (c *connImpl) Write(p []byte) (int, error)\<close>: the header, then the payload as
  it is (no mask key, no masking), then a flush.
\<close>

definition Write ::
    "'w writer \<Rightarrow> 'w flusher \<Rightarrow> ('r, 'w) connImpl \<Rightarrow> byte list \<Rightarrow>
       nat \<times> error option \<times> ('r, 'w) connImpl" where
  "Write wr fl c p =
     (let frame = getDataFrame (int (length p)) in
      case wr (rw_Writer c) frame of (_, err, w) \<Rightarrow>
        if err \<noteq> None then (0, err, c\<lparr>rw_Writer := w\<rparr>)
        else
          (case wr w p of (n, err, w) \<Rightarrow>
             if err \<noteq> None then (0, err, c\<lparr>rw_Writer := w\<rparr>)
             else
               (case fl w of (err, w) \<Rightarrow> (n, err, c\<lparr>rw_Writer := w\<rparr>))))"

section \<open>The accept key\<close>

text \<open>
  \<open>hashKey\<close> calls \<open>crypto/sha1\<close> and \<open>encoding/base64\<close> of the Go standard library.
  They are written out here after their standards (FIPS 180-4 and RFC 4648), so that
  \<open>hashKey\<close> can be computed. A \<open>uint32\<close> is a natural number below \<open>2^32\<close>; the
  wrap-around of \<open>+\<close> and of the left shift is \<open>take_bit 32\<close>.
\<close>

definition add32 :: "nat \<Rightarrow> nat \<Rightarrow> nat" where
  "add32 a b = take_bit 32 (a + b)"

definition RotateLeft32 :: "nat \<Rightarrow> nat \<Rightarrow> nat" where
  "RotateLeft32 x k = take_bit 32 (push_bit k x) OR drop_bit (32 - k) x"

text \<open>The sixteen big-endian 32-bit words of a 64-byte block.\<close>

fun words_of :: "byte list \<Rightarrow> nat list" where
  "words_of (a # b # c # d # bs) =
     (push_bit 24 (unat a) OR push_bit 16 (unat b) OR push_bit 8 (unat c) OR unat d) # words_of bs"
| "words_of _ = []"

definition sha1_f :: "nat \<Rightarrow> nat \<Rightarrow> nat \<Rightarrow> nat \<Rightarrow> nat" where
  "sha1_f i b c d =
     (if i < 20 then (b AND c) OR ((b XOR 0xFFFFFFFF) AND d)
      else if i < 40 then b XOR c XOR d
      else if i < 60 then ((b OR c) AND d) OR (b AND c)
      else b XOR c XOR d)"

definition sha1_K :: "nat \<Rightarrow> nat" where
  "sha1_K i =
     (if i < 20 then 0x5A827999
      else if i < 40 then 0x6ED9EBA1
      else if i < 60 then 0x8F1BBCDC
      else 0xCA62C1D6)"

text \<open>
  One round. The state is the window of the next sixteen message words and the five
  working variables; the window moves on by one word per round.
\<close>

definition sha1_step ::
    "nat list \<times> nat \<times> nat \<times> nat \<times> nat \<times> nat \<Rightarrow> nat \<Rightarrow>
       nat list \<times> nat \<times> nat \<times> nat \<times> nat \<times> nat" where
  "sha1_step s i =
     (case s of (w, a, b, c, d, e) \<Rightarrow>
        (tl w @ [RotateLeft32 (w ! 13 XOR w ! 8 XOR w ! 2 XOR w ! 0) 1],
         add32 (add32 (add32 (add32 (RotateLeft32 a 5) (sha1_f i b c d)) e) (w ! 0)) (sha1_K i),
         a, RotateLeft32 b 30, c, d))"

text \<open>The rounds \<open>i, i + 1, ..., n - 1\<close>.\<close>

function sha1_rounds ::
    "nat \<Rightarrow> nat \<Rightarrow> nat list \<times> nat \<times> nat \<times> nat \<times> nat \<times> nat \<Rightarrow>
       nat list \<times> nat \<times> nat \<times> nat \<times> nat \<times> nat" where
  "sha1_rounds n i s = (if i < n then sha1_rounds n (i + 1) (sha1_step s i) else s)"
  by pat_completeness auto
termination
  by (relation "measure (\<lambda>(n, i, s). n - i)") auto

declare sha1_rounds.simps [simp del]

definition sha1_block ::
    "nat \<times> nat \<times> nat \<times> nat \<times> nat \<Rightarrow> byte list \<Rightarrow> nat \<times> nat \<times> nat \<times> nat \<times> nat" where
  "sha1_block h bs =
     (case h of (h0, h1, h2, h3, h4) \<Rightarrow>
        case sha1_rounds 80 0 (words_of bs, h0, h1, h2, h3, h4) of
          (w, a, b, c, d, e) \<Rightarrow> (add32 h0 a, add32 h1 b, add32 h2 c, add32 h3 d, add32 h4 e))"

function sha1_blocks ::
    "nat \<times> nat \<times> nat \<times> nat \<times> nat \<Rightarrow> byte list \<Rightarrow> nat \<times> nat \<times> nat \<times> nat \<times> nat" where
  "sha1_blocks h bs =
     (if length bs < 64 then h else sha1_blocks (sha1_block h (take 64 bs)) (drop 64 bs))"
  by pat_completeness auto
termination
  by (relation "measure (\<lambda>(h, bs). length bs)") auto

declare sha1_blocks.simps [simp del]

definition be32_bytes :: "nat \<Rightarrow> byte list" where
  "be32_bytes n = map (\<lambda>k. word_of_nat (take_bit 8 (drop_bit k n))) [24, 16, 8, 0]"

definition be64_bytes :: "nat \<Rightarrow> byte list" where
  "be64_bytes n =
     map (\<lambda>k. word_of_nat (take_bit 8 (drop_bit k n))) [56, 48, 40, 32, 24, 16, 8, 0]"

text \<open>The padding: a \<open>0x80\<close> byte, zeros up to 56 modulo 64, the length in bits.\<close>

definition sha1_pad :: "byte list \<Rightarrow> byte list" where
  "sha1_pad m =
     m @ [0x80] @ replicate ((119 - length m mod 64) mod 64) 0 @ be64_bytes (8 * length m)"

text \<open>\<open>h := sha1.New(); h.Write(m); h.Sum(nil)\<close>\<close>

definition sha1_Sum :: "byte list \<Rightarrow> byte list" where
  "sha1_Sum m =
     (case sha1_blocks (0x67452301, 0xEFCDAB89, 0x98BADCFE, 0x10325476, 0xC3D2E1F0) (sha1_pad m) of
        (h0, h1, h2, h3, h4) \<Rightarrow> concat (map be32_bytes [h0, h1, h2, h3, h4]))"

text \<open>The conversion \<open>[]byte(s)\<close> of a string.\<close>

definition bytes_of :: "string \<Rightarrow> byte list" where
  "bytes_of s = map (\<lambda>c. word_of_nat (of_char c)) s"

text \<open>\<open>base64.StdEncoding.EncodeToString\<close>: the standard alphabet, with padding.\<close>

definition encodeStd :: string where
  "encodeStd = ''ABCDEFGHIJKLMNOPQRSTUVWXYZabcdefghijklmnopqrstuvwxyz0123456789+/''"

fun EncodeToString :: "byte list \<Rightarrow> string" where
  "EncodeToString (a # b # c # src) =
     [encodeStd ! unat (drop_bit 2 a),
      encodeStd ! unat (push_bit 4 (a AND 0x03) OR drop_bit 4 b),
      encodeStd ! unat (push_bit 2 (b AND 0x0F) OR drop_bit 6 c),
      encodeStd ! unat (c AND 0x3F)] @ EncodeToString src"
| "EncodeToString [a, b] =
     [encodeStd ! unat (drop_bit 2 a),
      encodeStd ! unat (push_bit 4 (a AND 0x03) OR drop_bit 4 b),
      encodeStd ! unat (push_bit 2 (b AND 0x0F)),
      CHR ''='']"
| "EncodeToString [a] =
     [encodeStd ! unat (drop_bit 2 a),
      encodeStd ! unat (push_bit 4 (a AND 0x03)),
      CHR ''='', CHR ''='']"
| "EncodeToString [] = []"

text \<open>\<open>func hashKey(key string) string\<close>\<close>

definition hashKey :: "string \<Rightarrow> string" where
  "hashKey key = EncodeToString (sha1_Sum (bytes_of (key @ magicWebsocketGUID)))"

section \<open>Upgrade\<close>

text \<open>
  Of the request, \<open>Upgrade\<close> uses \<open>r.Header.Get\<close> only: the parameter \<open>Get\<close> gives, for
  a header name, the value \<open>h.Get\<close> returns (the empty string when the header is
  absent). Of the response writer it uses the header map, \<open>WriteHeader\<close> and, through
  \<open>http.NewResponseController(w).Hijack()\<close>, the hijack of the connection: the record
  keeps the headers set, the status written and whether the hijack was attempted, and
  the parameter \<open>hijack\<close> is what the hijack returns, an error or the reader and the
  writer of the connection.
\<close>

record ResponseWriter =
  Header :: "string \<rightharpoonup> string"
  status :: "nat option"
  hijacked :: bool

definition StatusSwitchingProtocols :: nat where
  "StatusSwitchingProtocols = 101"

definition Upgrade ::
    "(string \<Rightarrow> string) \<Rightarrow> (error + 'r \<times> 'w) \<Rightarrow> ResponseWriter \<Rightarrow>
       ('r, 'w) connImpl option \<times> error option \<times> ResponseWriter" where
  "Upgrade Get hijack w =
     (if Get ''Connection'' \<noteq> ''Upgrade'' then
        (None, Some (errors_New ''missing 'connection' header''), w)
      else if Get ''Upgrade'' \<noteq> ''websocket'' then
        (None, Some (errors_New ''missing 'upgrade' header''), w)
      else if Get ''Sec-WebSocket-Version'' \<noteq> ''13'' then
        (None, Some (errors_New ''invalid version''), w)
      else if Get ''Sec-WebSocket-Key'' = [] then
        (None, Some (errors_New ''missing 'sec-websocket-key' header''), w)
      else
        let key = Get ''Sec-WebSocket-Key'';
            secKey = hashKey key;
            w = w\<lparr>Header := (Header w)(''Upgrade'' \<mapsto> ''websocket'')\<rparr>;
            w = w\<lparr>Header := (Header w)(''Connection'' \<mapsto> ''Upgrade'')\<rparr>;
            w = w\<lparr>Header := (Header w)(''Sec-WebSocket-Accept'' \<mapsto> secKey)\<rparr>;
            w = w\<lparr>status := Some StatusSwitchingProtocols\<rparr>;
            w = w\<lparr>hijacked := True\<rparr>
        in
          case hijack of
            Inl err \<Rightarrow> (None, Some err, w)
          | Inr (r, wr) \<Rightarrow> (Some \<lparr>rw_Reader = r, rw_Writer = wr, buffer = None\<rparr>, None, w))"

section \<open>Callers and transports for the examples\<close>

text \<open>
  A reader in memory: the bytes arrive in chunks, and one \<open>Read\<close> delivers bytes of the
  chunk at the front only, at most as many as asked for. This is what
  \<open>bufio.Reader.Read\<close> does with what it has buffered: it does not wait for more. A
  read of no bytes delivers nothing; when no chunk is left the reader is at \<open>EOF\<close>.
\<close>

definition chunk_rd :: "byte list list reader" where
  "chunk_rd r n =
     (if n = 0 then ([], None, r)
      else
        case r of
          [] \<Rightarrow> ([], Some EOF, [])
        | ch # rest \<Rightarrow> (take n ch, None, if n < length ch then drop n ch # rest else rest))"

text \<open>A writer in memory: it appends what is written, and never fails.\<close>

definition buf_wr :: "byte list writer" where
  "buf_wr w bs = (length bs, None, w @ bs)"

definition buf_fl :: "byte list flusher" where
  "buf_fl w = (None, w)"

text \<open>
  \<open>serves rd r bss r'\<close>: from the state \<open>r\<close>, the reader answers the successive reads
  of \<open>length bs\<close> bytes, for \<open>bs\<close> in \<open>bss\<close>, with exactly the bytes \<open>bs\<close> and no error,
  and ends in the state \<open>r'\<close>.
\<close>

fun serves :: "'r reader \<Rightarrow> 'r \<Rightarrow> byte list list \<Rightarrow> 'r \<Rightarrow> bool" where
  "serves rd r [] r' = (r' = r)"
| "serves rd r (bs # bss) r' =
     (case rd r (length bs) of (got, err, r1) \<Rightarrow> got = bs \<and> err = None \<and> serves rd r1 bss r')"

text \<open>
  The reads of a masked frame: the two header bytes, the extended length if the header
  has one, the mask key, the payload.
\<close>

definition frame_reads :: "byte list \<Rightarrow> byte list \<Rightarrow> byte list \<Rightarrow> byte list list" where
  "frame_reads hdr key body =
     [take 2 hdr] @ (if 2 < length hdr then [drop 2 hdr] else []) @ [key, body]"

text \<open>
  A caller that reads as the echo loop of \<open>main.go\<close> does: each round makes a fresh
  buffer of \<open>sz\<close> bytes, calls \<open>Read\<close>, stops at an error and otherwise takes
  \<open>buffer[:n]\<close>. \<open>read_calls rd sz k c\<close> is \<open>k\<close> such rounds: the counts and the chunks
  taken, and the connection afterwards.
\<close>

fun read_calls ::
    "'r reader \<Rightarrow> nat \<Rightarrow> nat \<Rightarrow> ('r, 'w) connImpl \<Rightarrow>
       ((nat \<times> byte list) list \<times> ('r, 'w) connImpl) option" where
  "read_calls rd sz 0 c = Some ([], c)"
| "read_calls rd sz (Suc k) c =
     (case Read rd c (replicate sz 0) of
        Some (Return n None p' c') \<Rightarrow>
          (case read_calls rd sz k c' of
             Some (chunks, c'') \<Rightarrow> Some ((n, take n p') # chunks, c'')
           | None \<Rightarrow> None)
      | _ \<Rightarrow> None)"

text \<open>
  The life of a connection: \<open>Upgrade\<close> creates it with \<open>buffer\<close> \<open>nil\<close>, and then the
  caller calls \<open>Read\<close> and \<open>Write\<close>, with any arguments, in any order. \<open>run\<close> makes
  the calls of a list one after the other; a call that panics or never comes back ends
  the run with \<open>None\<close>.
\<close>

datatype call = Call_Read "byte list" | Call_Write "byte list"

fun run ::
    "'r reader \<Rightarrow> 'w writer \<Rightarrow> 'w flusher \<Rightarrow> ('r, 'w) connImpl \<Rightarrow> call list \<Rightarrow>
       ('r, 'w) connImpl option" where
  "run rd wr fl c [] = Some c"
| "run rd wr fl c (Call_Read p # calls) =
     (case Read rd c p of
        Some (Return n err p' c') \<Rightarrow> run rd wr fl c' calls
      | _ \<Rightarrow> None)"
| "run rd wr fl c (Call_Write p # calls) =
     (case Write wr fl c p of (n, err, c') \<Rightarrow> run rd wr fl c' calls)"

section \<open>Masking\<close>

lemma length_unmask_loop: "length (unmask_loop i mask_key payload) = length payload"
  by (induction i mask_key payload rule: unmask_loop.induct)
     (subst unmask_loop.simps, simp)

lemma nth_unmask_loop:
  "j < length payload \<Longrightarrow>
   unmask_loop i mask_key payload ! j =
     (if i \<le> j then payload ! j XOR mask_key ! (j mod 4) else payload ! j)"
proof (induction i mask_key payload rule: unmask_loop.induct)
  case (1 i mask_key payload)
  show ?case
  proof (cases "i < length payload")
    case True
    have "i = j \<or> Suc i \<le> j \<or> j < i" by arith
    with True "1" show ?thesis
      by (subst unmask_loop.simps) (auto simp: nth_list_update)
  next
    case False
    with "1.prems" show ?thesis
      by (subst unmask_loop.simps) simp
  qed
qed

text \<open>
  C5. Masking is an involution: for every 4-byte key and every payload, running the
  cycled XOR loop \<open>payload[i] ^= key[i mod 4]\<close> twice with the same key gives the
  payload back.
\<close>

theorem unmask_loop_involution:
  "length key = 4 \<Longrightarrow> unmask_loop 0 key (unmask_loop 0 key payload) = payload"
  by (rule nth_equalityI) (simp_all add: length_unmask_loop nth_unmask_loop xor.assoc)

theorem unmask_loop_involution_witness:
  "length [0x37, 0xfa, 0x21, 0x3d :: byte] = 4 \<and>
   unmask_loop 0 [0x37, 0xfa, 0x21, 0x3d] (unmask_loop 0 [0x37, 0xfa, 0x21, 0x3d]
     [0x48, 0x65, 0x6c, 0x6c, 0x6f]) = [0x48, 0x65, 0x6c, 0x6c, 0x6f]"
  using unmask_loop_involution [of "[0x37, 0xfa, 0x21, 0x3d]" "[0x48, 0x65, 0x6c, 0x6c, 0x6f]"]
  by simp

section \<open>Reading\<close>

text \<open>
  What every call of \<open>Read\<close> that returns keeps: the writer, a leftover buffer that is
  \<open>nil\<close> or non-empty, and on an error the count 0, the destination and the leftover
  buffer. The loop is a partial function, so the facts about it are proved by its
  fixed-point induction.
\<close>

lemma length_copy: "length (snd (copy dst src)) = length dst"
  by (simp add: copy_def Let_def)

lemma length_rw_Read: "rw_Read rd r buf = (buf', err, r') \<Longrightarrow> length buf' = length buf"
  by (auto simp: rw_Read_def length_copy split: prod.splits)

lemma rw_Read_full:
  "rd r (length bs) = (bs, err, r') \<Longrightarrow> rw_Read rd r (replicate (length bs) 0) = (bs, err, r')"
  by (simp add: rw_Read_def copy_def)

lemma Read_text_binary_error:
  "Read_text_binary rd c p n = Return k (Some e) p' c' \<Longrightarrow>
   k = 0 \<and> p' = p \<and> buffer c' = buffer c \<and> rw_Writer c' = rw_Writer c"
  unfolding Read_text_binary_def
  by (auto split: prod.splits if_splits option.splits simp: Let_def)

lemma Read_text_binary_writer:
  "Read_text_binary rd c p n = Return k e p' c' \<Longrightarrow> rw_Writer c' = rw_Writer c"
  unfolding Read_text_binary_def
  by (auto split: prod.splits if_splits option.splits simp: Let_def)

lemma make_bytes_length: "make_bytes n = Some bs \<Longrightarrow> length bs = nat n \<and> 0 \<le> n"
  by (auto simp: make_bytes_def split: if_splits)

lemma Read_text_binary_buffer:
  assumes "Read_text_binary rd c p n = Return k e p' c'" and "buffer c \<noteq> Some []"
  shows "buffer c' \<noteq> Some []"
  using assms unfolding Read_text_binary_def
  by (auto split: prod.splits if_splits option.splits simp: Let_def copy_def length_unmask_loop
      dest!: length_rw_Read make_bytes_length)

lemma Read_frames_inv:
  assumes "Read_frames rd c p = Some y"
  shows "\<forall>k e p' c'. y = Return k e p' c' \<longrightarrow>
      rw_Writer c' = rw_Writer c \<and>
      (buffer c \<noteq> Some [] \<longrightarrow> buffer c' \<noteq> Some []) \<and>
      (e \<noteq> None \<longrightarrow> k = 0 \<and> p' = p \<and> buffer c' = buffer c)"
proof (rule Read_frames.raw_induct [OF _ assms], goal_cases)
  case (1 f rd c p y)
  obtain frame err r where rr: "rw_Read rd (rw_Reader c) (replicate 2 0) = (frame, err, r)"
    by (cases "rw_Read rd (rw_Reader c) (replicate 2 0)") auto
  show ?case
  proof (intro allI impI)
    fix k e p' c'
    assume y: "y = Return k e p' c'"
    show "rw_Writer c' = rw_Writer c \<and>
      (buffer c \<noteq> Some [] \<longrightarrow> buffer c' \<noteq> Some []) \<and>
      (e \<noteq> None \<longrightarrow> k = 0 \<and> p' = p \<and> buffer c' = buffer c)"
      using "1"(2) rr y "1"(1) [of rd "c\<lparr>rw_Reader := r\<rparr>" p y]
        Read_text_binary_error [of rd "c\<lparr>rw_Reader := r\<rparr>" p "uint (frame ! 1 AND 0x7F)" k _ p' c']
        Read_text_binary_writer [of rd "c\<lparr>rw_Reader := r\<rparr>" p "uint (frame ! 1 AND 0x7F)" k e p' c']
        Read_text_binary_buffer [of rd "c\<lparr>rw_Reader := r\<rparr>" p "uint (frame ! 1 AND 0x7F)" k e p' c']
      by (auto simp: Let_def split: if_splits)
  qed
qed


lemma serves_Cons:
  "serves rd r (bs # bss) r' \<Longrightarrow>
   \<exists>r1. rw_Read rd r (replicate (length bs) 0) = (bs, None, r1) \<and> serves rd r1 bss r'"
  by (auto split: prod.splits intro: rw_Read_full)

lemma Read_text_binary_tail:
  assumes len: "(if n0 = 0x7E then
              (case rw_Read rd (rw_Reader c) (replicate 2 0) of (payload, err, r) \<Rightarrow>
                 (err, r, go_int (push_bit 0x08 (ucast (payload ! 0)) OR ucast (payload ! 1))))
            else if n0 = 0x7F then
              (case rw_Read rd (rw_Reader c) (replicate 8 0) of (payload, err, r) \<Rightarrow>
                 (err, r, go_int (push_bit 0x38 (ucast (payload ! 0)) OR
                                  push_bit 0x30 (ucast (payload ! 1)) OR
                                  push_bit 0x28 (ucast (payload ! 2)) OR
                                  push_bit 0x20 (ucast (payload ! 3)) OR
                                  push_bit 0x18 (ucast (payload ! 4)) OR
                                  push_bit 0x10 (ucast (payload ! 5)) OR
                                  push_bit 0x08 (ucast (payload ! 6)) OR
                                  ucast (payload ! 7))))
            else (None, rw_Reader c, n0)) = (None, r1, int (length body))"
    and srv: "serves rd r1 [key, body] r'"
    and key: "length key = 4"
    and alloc: "int (length body) \<le> maxAlloc"
  shows "Read_text_binary rd c p n0 =
     (if length p < length body then
        Return (length p) None (take (length p) (unmask_loop 0 key body))
          (c\<lparr>rw_Reader := r', buffer := Some (drop (length p) (unmask_loop 0 key body))\<rparr>)
      else
        Return (length body) None (unmask_loop 0 key body @ drop (length body) p)
          (c\<lparr>rw_Reader := r'\<rparr>))"
proof -
  from srv key obtain r2 where
    k: "rw_Read rd r1 (replicate 4 0) = (key, None, r2)" and srv2: "serves rd r2 [body] r'"
    using serves_Cons [of rd r1 key "[body]" r'] by auto
  from srv2 have b: "rw_Read rd r2 (replicate (length body) 0) = (body, None, r')"
    using serves_Cons [of rd r2 body "[]" r'] by auto
  have mk: "make_bytes (int (length body)) = Some (replicate (length body) 0)"
    using alloc by (simp add: make_bytes_def)
  show ?thesis
    unfolding Read_text_binary_def len
    by (simp add: k mk b Let_def copy_def length_unmask_loop min_def)
qed

subsection \<open>The length field\<close>

text \<open>
  What \<open>Read\<close> computes from the bytes \<open>getDataFrame\<close> writes for a length: the bytes
  are the big-endian digits of the length, and putting them together by shifts and
  \<open>|\<close> gives the length back.
\<close>

lemma and_255: "(n::int) AND 0xFF = take_bit 8 n"
  by (simp add: take_bit_eq_mask mask_eq_exp_minus_1)

lemma bit_byte_at:
  "bit (push_bit k (ucast (word_of_int (drop_bit k n) :: byte)) :: 64 word) i \<longleftrightarrow>
     k \<le> i \<and> i < k + 8 \<and> i < 64 \<and> bit n i"
  by (auto simp add: bit_simps)

lemma bit_byte_low:
  "bit (ucast (word_of_int (n AND 0xFF) :: byte) :: 64 word) i \<longleftrightarrow> i < 8 \<and> bit n i"
  by (auto simp add: bit_simps and_255)

lemma be16_value: 
  "(push_bit 8 (ucast (word_of_int (drop_bit 8 n) :: byte)) OR ucast (word_of_int (n AND 0xFF) :: byte) :: 64 word) = word_of_int (take_bit 16 n)"
  apply (rule bit_word_eqI)
  apply (simp only: bit_or_iff bit_byte_at bit_byte_low)
  apply (auto simp add: bit_simps)
  done

lemma be64_value: 
  "(push_bit 0x38 (ucast (word_of_int (drop_bit 0x38 n) :: byte)) OR
    push_bit 0x30 (ucast (word_of_int (drop_bit 0x30 n) :: byte)) OR
    push_bit 0x28 (ucast (word_of_int (drop_bit 0x28 n) :: byte)) OR
    push_bit 0x20 (ucast (word_of_int (drop_bit 0x20 n) :: byte)) OR
    push_bit 0x18 (ucast (word_of_int (drop_bit 0x18 n) :: byte)) OR
    push_bit 0x10 (ucast (word_of_int (drop_bit 0x10 n) :: byte)) OR
    push_bit 0x08 (ucast (word_of_int (drop_bit 0x08 n) :: byte)) OR
    ucast (word_of_int (n AND 0xFF) :: byte) :: 64 word) = word_of_int n"
proof (rule bit_word_eqI)
  fix i :: nat
  assume "i < LENGTH(64)"
  then have i: "i < 64" by simp
  then have cover: "(56 \<le> i \<and> i < 56 + 8) \<or> (48 \<le> i \<and> i < 48 + 8) \<or> (40 \<le> i \<and> i < 40 + 8) \<or>
     (32 \<le> i \<and> i < 32 + 8) \<or> (24 \<le> i \<and> i < 24 + 8) \<or> (16 \<le> i \<and> i < 16 + 8) \<or> (8 \<le> i \<and> i < 8 + 8) \<or> i < 8"
    by arith
  have r: "bit (word_of_int n :: 64 word) i \<longleftrightarrow> bit n i"
    using i by (simp add: bit_simps)
  show "bit (push_bit 0x38 (ucast (word_of_int (drop_bit 0x38 n) :: byte)) OR
    push_bit 0x30 (ucast (word_of_int (drop_bit 0x30 n) :: byte)) OR
    push_bit 0x28 (ucast (word_of_int (drop_bit 0x28 n) :: byte)) OR
    push_bit 0x20 (ucast (word_of_int (drop_bit 0x20 n) :: byte)) OR
    push_bit 0x18 (ucast (word_of_int (drop_bit 0x18 n) :: byte)) OR
    push_bit 0x10 (ucast (word_of_int (drop_bit 0x10 n) :: byte)) OR
    push_bit 0x08 (ucast (word_of_int (drop_bit 0x08 n) :: byte)) OR
    ucast (word_of_int (n AND 0xFF) :: byte) :: 64 word) i = bit (word_of_int n :: 64 word) i"
    unfolding r bit_or_iff bit_byte_at bit_byte_low
    using cover i by blast
qed

lemma sint_word_of_int_64: "0 \<le> n \<Longrightarrow> n < 2 ^ 63 \<Longrightarrow> sint (word_of_int n :: 64 word) = n"
  by (simp add: sint_sbintrunc' signed_take_bit_int_eq_self)

lemma uint_low7: "0 \<le> n \<Longrightarrow> n \<le> 125 \<Longrightarrow> uint ((word_of_int n :: byte) AND 0x7F) = n"
proof -
  assume a: "0 \<le> n" "n \<le> 125"
  have "n AND 127 = take_bit 7 n"
    by (simp add: take_bit_eq_mask mask_eq_exp_minus_1)
  also have "\<dots> = n" using a by (simp add: take_bit_int_eq_self)
  finally have m: "n AND 127 = n" .
  have "take_bit 8 n = n" using a by (simp add: take_bit_int_eq_self)
  then show ?thesis
    using a m by (simp add: uint_and uint_word_of_int)
qed

subsection \<open>A frame whose reads are served in full\<close>

lemma unmask_loop_twice: "unmask_loop 0 key (unmask_loop 0 key payload) = payload"
  by (rule nth_equalityI) (simp_all add: length_unmask_loop nth_unmask_loop xor.assoc)

lemma Read_frames_text:
  assumes "rw_Read rd (rw_Reader c) (replicate 2 0) = (frame, None, r)"
    and "frame ! 0 AND 0x0F = opCodeText \<or> frame ! 0 AND 0x0F = opCodeBinary"
  shows "Read_frames rd c p =
     Some (Read_text_binary rd (c\<lparr>rw_Reader := r\<rparr>) p (uint (frame ! 1 AND 0x7F)))"
  using assms by (subst Read_frames.simps) (auto simp: Let_def)

lemma getDataFrame_small:
  "sz \<le> 125 \<Longrightarrow> getDataFrame sz = [0x81, word_of_int sz]"
  by (simp add: getDataFrame_def opCodeText_def)

lemma getDataFrame_medium:
  "125 < sz \<Longrightarrow> sz \<le> 65535 \<Longrightarrow>
   getDataFrame sz = [0x81, 126, word_of_int (drop_bit 8 sz), word_of_int (sz AND 0xFF)]"
  by (simp add: getDataFrame_def opCodeText_def)

lemma getDataFrame_large:
  "65535 < sz \<Longrightarrow>
   getDataFrame sz = [0x81, 127, word_of_int (drop_bit 56 sz), word_of_int (drop_bit 48 sz),
     word_of_int (drop_bit 40 sz), word_of_int (drop_bit 32 sz), word_of_int (drop_bit 24 sz),
     word_of_int (drop_bit 16 sz), word_of_int (drop_bit 8 sz), word_of_int (sz AND 0xFF)]"
  by (simp add: getDataFrame_def opCodeText_def)

lemma Read_frames_getDataFrame:
  assumes key: "length key = 4"
    and alloc: "int (length body) \<le> maxAlloc"
    and srv: "serves rd (rw_Reader c) (frame_reads (getDataFrame (int (length body))) key body) r'"
  shows "Read_frames rd c p =
     Some (if length p < length body then
        Return (length p) None (take (length p) (unmask_loop 0 key body))
          (c\<lparr>rw_Reader := r', buffer := Some (drop (length p) (unmask_loop 0 key body))\<rparr>)
      else
        Return (length body) None (unmask_loop 0 key body @ drop (length body) p)
          (c\<lparr>rw_Reader := r'\<rparr>))"
proof -
  define n where "n = int (length body)"
  have n0: "0 \<le> n" and n63: "n < 2 ^ 63"
    using alloc by (simp_all add: n_def maxAlloc_def)
  consider (small) "n \<le> 125" | (medium) "125 < n" "n \<le> 65535" | (large) "65535 < n"
    by linarith
  then show ?thesis
  proof cases
    case small
    have hdr: "getDataFrame n = [0x81, word_of_int n]"
      using small by (rule getDataFrame_small)
    from srv obtain r1 where
      h: "rw_Read rd (rw_Reader c) (replicate 2 0) = ([0x81, word_of_int n], None, r1)"
      and rest: "serves rd r1 [key, body] r'"
      using serves_Cons [of rd "rw_Reader c" "[0x81, word_of_int n]" "[key, body]" r']
      by (auto simp: frame_reads_def hdr n_def [symmetric] numeral_2_eq_2)
    have len: "uint ((word_of_int n :: byte) AND 0x7F) = n"
      using n0 small by (rule uint_low7)
    have "Read_frames rd c p =
        Some (Read_text_binary rd (c\<lparr>rw_Reader := r1\<rparr>) p n)"
      using Read_frames_text [OF h, of p] len by (simp add: opCodeText_def)
    also have "Read_text_binary rd (c\<lparr>rw_Reader := r1\<rparr>) p n =
       (if length p < length body then
        Return (length p) None (take (length p) (unmask_loop 0 key body))
          (c\<lparr>rw_Reader := r1\<rparr>\<lparr>rw_Reader := r', buffer := Some (drop (length p) (unmask_loop 0 key body))\<rparr>)
      else
        Return (length body) None (unmask_loop 0 key body @ drop (length body) p)
          (c\<lparr>rw_Reader := r1\<rparr>\<lparr>rw_Reader := r'\<rparr>))"
      using small by (intro Read_text_binary_tail [OF _ rest key alloc]) (auto simp: n_def)
    finally show ?thesis by simp
  next
    case medium
    have hdr: "getDataFrame n = [0x81, 126, word_of_int (drop_bit 8 n), word_of_int (n AND 0xFF)]"
      using medium by (rule getDataFrame_medium)
    from srv obtain r1 where
      h: "rw_Read rd (rw_Reader c) (replicate 2 0) = ([0x81, 126], None, r1)"
      and rest1: "serves rd r1 [[word_of_int (drop_bit 8 n), word_of_int (n AND 0xFF)], key, body] r'"
      using serves_Cons [of rd "rw_Reader c" "[0x81, 126]"
          "[[word_of_int (drop_bit 8 n), word_of_int (n AND 0xFF)], key, body]" r']
      by (auto simp: frame_reads_def hdr n_def [symmetric] numeral_2_eq_2)
    from rest1 obtain r2 where
      e: "rw_Read rd r1 (replicate 2 0) =
            ([word_of_int (drop_bit 8 n), word_of_int (n AND 0xFF)], None, r2)"
      and rest: "serves rd r2 [key, body] r'"
      using serves_Cons [of rd r1 "[word_of_int (drop_bit 8 n), word_of_int (n AND 0xFF)]"
          "[key, body]" r']
      by (auto simp: numeral_2_eq_2)
    have tb: "take_bit 16 n = n"
      using n0 medium by (simp add: take_bit_int_eq_self)
    have val: "go_int (push_bit 8 (ucast (word_of_int (drop_bit 8 n) :: byte)) OR
                 ucast (word_of_int (n AND 0xFF) :: byte)) = n"
      using n0 n63 by (simp add: go_int_def be16_value tb sint_word_of_int_64)
    have "Read_frames rd c p =
        Some (Read_text_binary rd (c\<lparr>rw_Reader := r1\<rparr>) p 126)"
      using Read_frames_text [OF h, of p] by (simp add: opCodeText_def)
    also have "Read_text_binary rd (c\<lparr>rw_Reader := r1\<rparr>) p 126 =
       (if length p < length body then
        Return (length p) None (take (length p) (unmask_loop 0 key body))
          (c\<lparr>rw_Reader := r1\<rparr>\<lparr>rw_Reader := r', buffer := Some (drop (length p) (unmask_loop 0 key body))\<rparr>)
      else
        Return (length body) None (unmask_loop 0 key body @ drop (length body) p)
          (c\<lparr>rw_Reader := r1\<rparr>\<lparr>rw_Reader := r'\<rparr>))"
      using val by (intro Read_text_binary_tail [OF _ rest key alloc]) (simp add: e n_def)
    finally show ?thesis by simp
  next
    case large
    let ?ext = "[word_of_int (drop_bit 56 n), word_of_int (drop_bit 48 n),
       word_of_int (drop_bit 40 n), word_of_int (drop_bit 32 n), word_of_int (drop_bit 24 n),
       word_of_int (drop_bit 16 n), word_of_int (drop_bit 8 n), word_of_int (n AND 0xFF)] :: byte list"
    have hdr: "getDataFrame n = [0x81, 127] @ ?ext"
      using large by (simp add: getDataFrame_large)
    from srv obtain r1 where
      h: "rw_Read rd (rw_Reader c) (replicate 2 0) = ([0x81, 127], None, r1)"
      and rest1: "serves rd r1 [?ext, key, body] r'"
      using serves_Cons [of rd "rw_Reader c" "[0x81, 127]" "[?ext, key, body]" r']
      by (auto simp: frame_reads_def hdr n_def [symmetric] numeral_2_eq_2)
    from rest1 obtain r2 where
      e: "rw_Read rd r1 (replicate 8 0) = (?ext, None, r2)"
      and rest: "serves rd r2 [key, body] r'"
      using serves_Cons [of rd r1 ?ext "[key, body]" r']
      by (auto simp: eval_nat_numeral)
    have val: "go_int (push_bit 0x38 (ucast (word_of_int (drop_bit 0x38 n) :: byte)) OR
        push_bit 0x30 (ucast (word_of_int (drop_bit 0x30 n) :: byte)) OR
        push_bit 0x28 (ucast (word_of_int (drop_bit 0x28 n) :: byte)) OR
        push_bit 0x20 (ucast (word_of_int (drop_bit 0x20 n) :: byte)) OR
        push_bit 0x18 (ucast (word_of_int (drop_bit 0x18 n) :: byte)) OR
        push_bit 0x10 (ucast (word_of_int (drop_bit 0x10 n) :: byte)) OR
        push_bit 0x08 (ucast (word_of_int (drop_bit 0x08 n) :: byte)) OR
        ucast (word_of_int (n AND 0xFF) :: byte)) = n"
      using n0 n63 by (simp only: go_int_def be64_value sint_word_of_int_64)
    have "Read_frames rd c p =
        Some (Read_text_binary rd (c\<lparr>rw_Reader := r1\<rparr>) p 127)"
      using Read_frames_text [OF h, of p] by (simp add: opCodeText_def)
    also have "Read_text_binary rd (c\<lparr>rw_Reader := r1\<rparr>) p 127 =
       (if length p < length body then
        Return (length p) None (take (length p) (unmask_loop 0 key body))
          (c\<lparr>rw_Reader := r1\<rparr>\<lparr>rw_Reader := r', buffer := Some (drop (length p) (unmask_loop 0 key body))\<rparr>)
      else
        Return (length body) None (unmask_loop 0 key body @ drop (length body) p)
          (c\<lparr>rw_Reader := r1\<rparr>\<lparr>rw_Reader := r'\<rparr>))"
      using val by (intro Read_text_binary_tail [OF _ rest key alloc]) (simp add: e n_def)
    finally show ?thesis by simp
  qed
qed


subsection \<open>Frames on a transport in memory\<close>

lemma replicate_numeral: "replicate (numeral v) x = x # replicate (numeral v - 1) x"
  by (simp add: numeral_eq_Suc)

lemmas Read_eval =
  Read_def Read_frames.simps Read_text_binary_def rw_Read_def chunk_rd_def copy_def
  make_bytes_def maxAlloc_def go_int_def unmask_loop.simps replicate_numeral Let_def
  opCodeText_def opCodeBinary_def opCodePing_def opCodePong_def opCodeClose_def

text \<open>
  C1, as stated, fails. \<open>Write\<close> sends the header of \<open>getDataFrame\<close> and then the
  payload as it is, with no mask key; \<open>Read\<close> takes the four bytes after the header for
  a mask key. The bytes \<open>Write\<close> produces for the one-byte payload \<open>0x41\<close>, fed to
  \<open>Read\<close>, give the error \<open>EOF\<close> and not the payload.
\<close>

theorem Read_after_Write_counterexample:
  "Write buf_wr buf_fl \<lparr>rw_Reader = ([] :: byte list list), rw_Writer = [], buffer = None\<rparr> [0x41] =
     (1, None, \<lparr>rw_Reader = [], rw_Writer = [0x81, 0x01, 0x41], buffer = None\<rparr>) \<and>
   Read chunk_rd \<lparr>rw_Reader = [[0x81, 0x01, 0x41]], rw_Writer = ([] :: byte list), buffer = None\<rparr> [0] =
     Some (Return 0 (Some EOF) [0] \<lparr>rw_Reader = [], rw_Writer = [], buffer = None\<rparr>)"
  by (simp add: Write_def buf_wr_def buf_fl_def getDataFrame_def Read_eval)

text \<open>
  C2 at a failing input. The masked text frame "Hello" of RFC 6455 arrives in two
  chunks, the second holding the last three payload bytes. \<open>Read\<close> asks for five
  payload bytes, is given two, ignores the count, and returns five bytes of which the
  last three are the mask key itself (zero bytes unmasked), not "llo"; the three
  bytes it did not read stay in the transport and will be taken for a frame header.
\<close>

theorem Read_short_read_example:
  "Read chunk_rd
     \<lparr>rw_Reader = [[0x81, 0x85, 0x37, 0xfa, 0x21, 0x3d, 0x7f, 0x9f], [0x4d, 0x51, 0x58]],
      rw_Writer = ([] :: byte list), buffer = None\<rparr>
     (replicate 5 0) =
   Some (Return 5 None [0x48, 0x65, 0x21, 0x3d, 0x37]
     \<lparr>rw_Reader = [[0x4d, 0x51, 0x58]], rw_Writer = [], buffer = None\<rparr>)"
  by (simp add: Read_eval)

text \<open>
  C8 at a failing input. A masked pong with the payload "Hello" is followed by the
  masked text frame "Hello". After the two header bytes of the pong, \<open>Read\<close> starts
  the next round at once: the mask key and the payload of the pong are not consumed, the
  first two bytes of the mask key are taken for a frame header (opcode 7), and \<open>Read\<close>
  fails with "unknown opcode" instead of delivering the text frame.
\<close>

theorem Read_after_pong_example:
  "Read chunk_rd
     \<lparr>rw_Reader = [[0x8a, 0x85, 0x37, 0xfa, 0x21, 0x3d, 0x7f, 0x9f, 0x4d, 0x51, 0x58,
                     0x81, 0x85, 0x37, 0xfa, 0x21, 0x3d, 0x7f, 0x9f, 0x4d, 0x51, 0x58]],
      rw_Writer = ([] :: byte list), buffer = None\<rparr>
     (replicate 5 0) =
   Some (Return 0 (Some (errors_New ''unknown opcode'')) (replicate 5 0)
     \<lparr>rw_Reader = [[0x21, 0x3d, 0x7f, 0x9f, 0x4d, 0x51, 0x58,
                     0x81, 0x85, 0x37, 0xfa, 0x21, 0x3d, 0x7f, 0x9f, 0x4d, 0x51, 0x58]],
      rw_Writer = [], buffer = None\<rparr>)"
  by (simp add: Read_eval)

text \<open>
  For comparison: when the masked text frame "Hello" arrives in one chunk, \<open>Read\<close>
  delivers "Hello".
\<close>

lemma Read_text_example:
  "Read chunk_rd
     \<lparr>rw_Reader = [[0x81, 0x85, 0x37, 0xfa, 0x21, 0x3d, 0x7f, 0x9f, 0x4d, 0x51, 0x58]],
      rw_Writer = ([] :: byte list), buffer = None\<rparr>
     (replicate 5 0) =
   Some (Return 5 None [0x48, 0x65, 0x6c, 0x6c, 0x6f]
     \<lparr>rw_Reader = [], rw_Writer = [], buffer = None\<rparr>)"
  by (simp add: Read_eval)


lemma getDataFrame_examples:
  "getDataFrame 0 = [0x81, 0] \<and>
   getDataFrame 1 = [0x81, 1] \<and>
   getDataFrame 125 = [0x81, 125] \<and>
   getDataFrame 126 = [0x81, 126, 0x00, 0x7E] \<and>
   getDataFrame 65535 = [0x81, 126, 0xFF, 0xFF] \<and>
   getDataFrame 65536 = [0x81, 127, 0, 0, 0, 0, 0, 0x01, 0x00, 0x00]"
  by (simp add: getDataFrame_def opCodeText_def)

text \<open>
  C1, amended. For every payload (of any length up to the allocation limit, so of the
  lengths 0, 1, 125, 126, 65535 and 65536) and every 4-byte mask key: when the transport
  delivers in full the header of \<open>getDataFrame\<close>, then the mask key, then the payload
  masked with that key, \<open>Read\<close> into a destination at least as long as the payload
  returns the length of the payload and leaves exactly the payload at the front of the
  destination. The length indicator follows the width rule: 125 is literal, 126 and
  65535 take the indicator 126 and two bytes big-endian, 65536 takes the indicator 127
  and eight bytes big-endian.
\<close>

theorem Read_masked_getDataFrame_roundtrip:
  assumes "length key = 4"
    and "int (length payload) \<le> maxAlloc"
    and "length payload \<le> length p"
    and "buffer c = None"
    and "serves rd (rw_Reader c)
           (frame_reads (getDataFrame (int (length payload))) key (unmask_loop 0 key payload)) r'"
  shows "Read rd c p =
           Some (Return (length payload) None (payload @ drop (length payload) p)
                   (c\<lparr>rw_Reader := r'\<rparr>)) \<and>
         getDataFrame 125 = [0x81, 125] \<and>
         getDataFrame 126 = [0x81, 126, 0x00, 0x7E] \<and>
         getDataFrame 65535 = [0x81, 126, 0xFF, 0xFF] \<and>
         getDataFrame 65536 = [0x81, 127, 0, 0, 0, 0, 0, 0x01, 0x00, 0x00]"
proof -
  have "Read rd c p = Read_frames rd c p"
    using assms(4) by (simp add: Read_def)
  also have "\<dots> = Some (Return (length payload) None (payload @ drop (length payload) p)
                   (c\<lparr>rw_Reader := r'\<rparr>))"
    using Read_frames_getDataFrame [of key "unmask_loop 0 key payload" rd c r' p] assms
    by (simp add: length_unmask_loop unmask_loop_twice)
  finally show ?thesis
    using getDataFrame_examples by simp
qed

theorem Read_masked_getDataFrame_roundtrip_witness:
  "length [0x37, 0xfa, 0x21, 0x3d :: byte] = 4 \<and>
   int (length [0x48, 0x65, 0x6c, 0x6c, 0x6f :: byte]) \<le> maxAlloc \<and>
   length [0x48, 0x65, 0x6c, 0x6c, 0x6f :: byte] \<le> length (replicate 8 (0 :: byte)) \<and>
   buffer \<lparr>rw_Reader = [[0x81, 0x05, 0x37, 0xfa, 0x21, 0x3d, 0x7f, 0x9f, 0x4d, 0x51, 0x58 :: byte]],
           rw_Writer = ([] :: byte list), buffer = None\<rparr> = None \<and>
   serves chunk_rd [[0x81, 0x05, 0x37, 0xfa, 0x21, 0x3d, 0x7f, 0x9f, 0x4d, 0x51, 0x58]]
     (frame_reads (getDataFrame (int (length [0x48, 0x65, 0x6c, 0x6c, 0x6f :: byte])))
        [0x37, 0xfa, 0x21, 0x3d]
        (unmask_loop 0 [0x37, 0xfa, 0x21, 0x3d] [0x48, 0x65, 0x6c, 0x6c, 0x6f])) [] \<and>
   Read chunk_rd
     \<lparr>rw_Reader = [[0x81, 0x05, 0x37, 0xfa, 0x21, 0x3d, 0x7f, 0x9f, 0x4d, 0x51, 0x58]],
      rw_Writer = ([] :: byte list), buffer = None\<rparr>
     (replicate 8 0) =
   Some (Return 5 None [0x48, 0x65, 0x6c, 0x6c, 0x6f, 0, 0, 0]
     \<lparr>rw_Reader = [], rw_Writer = [], buffer = None\<rparr>)"
proof -
  have h1: "length [0x37, 0xfa, 0x21, 0x3d :: byte] = 4" by simp
  have h2: "int (length [0x48, 0x65, 0x6c, 0x6c, 0x6f :: byte]) \<le> maxAlloc"
    by (simp add: maxAlloc_def)
  have h3: "length [0x48, 0x65, 0x6c, 0x6c, 0x6f :: byte] \<le> length (replicate 8 (0 :: byte))"
    by simp
  have h4: "buffer \<lparr>rw_Reader = [[0x81, 0x05, 0x37, 0xfa, 0x21, 0x3d, 0x7f, 0x9f, 0x4d, 0x51, 0x58 :: byte]],
           rw_Writer = ([] :: byte list), buffer = None\<rparr> = None"
    by simp
  have h5: "serves chunk_rd
     (rw_Reader \<lparr>rw_Reader = [[0x81, 0x05, 0x37, 0xfa, 0x21, 0x3d, 0x7f, 0x9f, 0x4d, 0x51, 0x58 :: byte]],
           rw_Writer = ([] :: byte list), buffer = None\<rparr>)
     (frame_reads (getDataFrame (int (length [0x48, 0x65, 0x6c, 0x6c, 0x6f :: byte])))
        [0x37, 0xfa, 0x21, 0x3d]
        (unmask_loop 0 [0x37, 0xfa, 0x21, 0x3d] [0x48, 0x65, 0x6c, 0x6c, 0x6f])) []"
    by (simp add: frame_reads_def getDataFrame_def opCodeText_def unmask_loop.simps chunk_rd_def)
  show ?thesis
    using Read_masked_getDataFrame_roundtrip [OF h1 h2 h3 h4 h5] h1 h2 h3 h5
    by (simp add: replicate_numeral)
qed


subsection \<open>Errors and the leftover buffer\<close>

lemma Read_buffered:
  "buffer c = Some b \<Longrightarrow>
   Read rd c p =
     Some (Return (min (length p) (length b)) None
             (take (min (length p) (length b)) b @ drop (min (length p) (length b)) p)
             (c\<lparr>buffer := (if min (length p) (length b) = length b then None
                            else Some (drop (min (length p) (length b)) b))\<rparr>))"
  by (simp add: Read_def copy_def Let_def)

lemma Read_unbuffered: "buffer c = None \<Longrightarrow> Read rd c p = Read_frames rd c p"
  by (simp add: Read_def)

lemma Read_inv:
  assumes "Read rd c p = Some (Return k e p' c')"
  shows "rw_Writer c' = rw_Writer c \<and>
      (buffer c \<noteq> Some [] \<longrightarrow> buffer c' \<noteq> Some []) \<and>
      (e \<noteq> None \<longrightarrow> k = 0 \<and> p' = p \<and> buffer c' = buffer c \<and> buffer c = None)"
proof (cases "buffer c")
  case None
  with assms have "Read_frames rd c p = Some (Return k e p' c')"
    by (simp add: Read_unbuffered)
  from Read_frames_inv [OF this] None show ?thesis by simp
next
  case (Some b)
  from assms Read_buffered [OF Some, of rd p] Some show ?thesis
    by (auto simp: min_def split: if_splits)
qed

text \<open>
  C10. Error atomicity of \<open>Read\<close>: whenever a call returns an error, the count
  returned is 0 and the leftover buffer is as it was before the call, namely \<open>nil\<close>
  (a failing call is one that was decoding a new frame, and keeps no part of a payload);
  and a call that finds the leftover buffer non-\<open>nil\<close> returns, with a \<open>nil\<close> error.
\<close>

theorem Read_error_atomic:
  "(\<forall>n e p' c'. Read rd c p = Some (Return n (Some e) p' c') \<longrightarrow>
      n = 0 \<and> buffer c' = buffer c \<and> buffer c' = None) \<and>
   (buffer c \<noteq> None \<longrightarrow> (\<exists>n p' c'. Read rd c p = Some (Return n None p' c')))"
proof (intro conjI allI impI)
  fix n e p' c'
  assume "Read rd c p = Some (Return n (Some e) p' c')"
  from Read_inv [OF this] show "n = 0" and "buffer c' = buffer c" and "buffer c' = None"
    by simp_all
next
  assume "buffer c \<noteq> None"
  then obtain b where "buffer c = Some b" by auto
  from Read_buffered [OF this, of rd p]
  show "\<exists>n p' c'. Read rd c p = Some (Return n None p' c')" by blast
qed

theorem Read_error_atomic_witness:
  "Read chunk_rd \<lparr>rw_Reader = [[0x81, 0x85]], rw_Writer = ([] :: byte list), buffer = None\<rparr> [0, 0] =
     Some (Return 0 (Some EOF) [0, 0] \<lparr>rw_Reader = [], rw_Writer = [], buffer = None\<rparr>) \<and>
   (0 :: nat) = 0 \<and>
   buffer \<lparr>rw_Reader = ([] :: byte list list), rw_Writer = ([] :: byte list), buffer = None\<rparr> =
     buffer \<lparr>rw_Reader = [[0x81, 0x85 :: byte]], rw_Writer = ([] :: byte list), buffer = None\<rparr> \<and>
   buffer \<lparr>rw_Reader = ([] :: byte list list), rw_Writer = ([] :: byte list), buffer = None\<rparr> = None \<and>
   buffer \<lparr>rw_Reader = ([] :: byte list list), rw_Writer = ([] :: byte list),
           buffer = Some [1, 2, 3]\<rparr> \<noteq> None \<and>
   (\<exists>n p' c'. Read chunk_rd \<lparr>rw_Reader = [], rw_Writer = ([] :: byte list), buffer = Some [1, 2, 3]\<rparr>
      [0, 0] = Some (Return n None p' c'))"
proof -
  have r: "Read chunk_rd \<lparr>rw_Reader = [[0x81, 0x85]], rw_Writer = ([] :: byte list), buffer = None\<rparr> [0, 0] =
     Some (Return 0 (Some EOF) [0, 0] \<lparr>rw_Reader = [], rw_Writer = [], buffer = None\<rparr>)"
    by (simp add: Read_eval)
  have b: "buffer \<lparr>rw_Reader = ([] :: byte list list), rw_Writer = ([] :: byte list),
           buffer = Some [1, 2, 3]\<rparr> \<noteq> None"
    by simp
  from Read_error_atomic [of chunk_rd
      "\<lparr>rw_Reader = [[0x81, 0x85]], rw_Writer = ([] :: byte list), buffer = None\<rparr>" "[0, 0]"]
    Read_error_atomic [of chunk_rd
      "\<lparr>rw_Reader = [], rw_Writer = ([] :: byte list), buffer = Some [1, 2, 3]\<rparr>" "[0, 0]"]
    r b
  show ?thesis by simp
qed

text \<open>
  C9. Protocol errors. In any round of the decoding loop (and so in \<open>Read\<close> itself when
  the leftover buffer is \<open>nil\<close>), when the header read succeeds: if the opcode is close
  (\<open>0x8\<close>), \<open>Read\<close> returns 0 and the error "connection closed"; if the opcode is none
  of text, binary, ping, pong and close (\<open>0x3\<close>, say), it returns 0 and the error
  "unknown opcode". The two errors differ, the destination \<open>p\<close> is left as it was (no
  payload byte is delivered), and the writer is untouched (no frame is sent back).
\<close>

theorem Read_close_unknown_opcode:
  assumes "rw_Read rd (rw_Reader c) (replicate 2 0) = (frame, None, r)"
  shows "(frame ! 0 AND 0x0F = opCodeClose \<longrightarrow>
            Read_frames rd c p =
              Some (Return 0 (Some (errors_New ''connection closed'')) p (c\<lparr>rw_Reader := r\<rparr>))) \<and>
         (frame ! 0 AND 0x0F \<notin> {opCodeText, opCodeBinary, opCodePing, opCodePong, opCodeClose} \<longrightarrow>
            Read_frames rd c p =
              Some (Return 0 (Some (errors_New ''unknown opcode'')) p (c\<lparr>rw_Reader := r\<rparr>))) \<and>
         (buffer c = None \<longrightarrow> Read rd c p = Read_frames rd c p) \<and>
         errors_New ''connection closed'' \<noteq> errors_New ''unknown opcode'' \<and>
         rw_Writer (c\<lparr>rw_Reader := r\<rparr>) = rw_Writer c"
  using assms
  by (subst (1 2) Read_frames.simps)
     (auto simp: Let_def Read_unbuffered opCodeText_def opCodeBinary_def opCodePing_def
        opCodePong_def opCodeClose_def)

theorem Read_close_unknown_opcode_witness:
  "rw_Read chunk_rd
     (rw_Reader \<lparr>rw_Reader = [[0x88, 0x80, 0x37, 0xfa, 0x21, 0x3d]], rw_Writer = ([] :: byte list),
                 buffer = None\<rparr>)
     (replicate 2 0) = ([0x88, 0x80], None, [[0x37, 0xfa, 0x21, 0x3d]]) \<and>
   [0x88, 0x80 :: byte] ! 0 AND 0x0F = opCodeClose \<and>
   Read chunk_rd
     \<lparr>rw_Reader = [[0x88, 0x80, 0x37, 0xfa, 0x21, 0x3d]], rw_Writer = ([] :: byte list),
      buffer = None\<rparr> [0, 0] =
     Some (Return 0 (Some (errors_New ''connection closed'')) [0, 0]
       \<lparr>rw_Reader = [[0x37, 0xfa, 0x21, 0x3d]], rw_Writer = [], buffer = None\<rparr>) \<and>
   rw_Read chunk_rd
     (rw_Reader \<lparr>rw_Reader = [[0x83, 0x81, 0x37, 0xfa, 0x21, 0x3d, 0x7f]],
                 rw_Writer = ([] :: byte list), buffer = None\<rparr>)
     (replicate 2 0) = ([0x83, 0x81], None, [[0x37, 0xfa, 0x21, 0x3d, 0x7f]]) \<and>
   [0x83, 0x81 :: byte] ! 0 AND 0x0F \<notin>
     {opCodeText, opCodeBinary, opCodePing, opCodePong, opCodeClose} \<and>
   Read chunk_rd
     \<lparr>rw_Reader = [[0x83, 0x81, 0x37, 0xfa, 0x21, 0x3d, 0x7f]], rw_Writer = ([] :: byte list),
      buffer = None\<rparr> [0, 0] =
     Some (Return 0 (Some (errors_New ''unknown opcode'')) [0, 0]
       \<lparr>rw_Reader = [[0x37, 0xfa, 0x21, 0x3d, 0x7f]], rw_Writer = [], buffer = None\<rparr>)"
proof -
  have h1: "rw_Read chunk_rd
     (rw_Reader \<lparr>rw_Reader = [[0x88, 0x80, 0x37, 0xfa, 0x21, 0x3d]], rw_Writer = ([] :: byte list),
                 buffer = None\<rparr>)
     (replicate 2 0) = ([0x88, 0x80], None, [[0x37, 0xfa, 0x21, 0x3d]])"
    by (simp add: rw_Read_def chunk_rd_def copy_def)
  have h2: "rw_Read chunk_rd
     (rw_Reader \<lparr>rw_Reader = [[0x83, 0x81, 0x37, 0xfa, 0x21, 0x3d, 0x7f]],
                 rw_Writer = ([] :: byte list), buffer = None\<rparr>)
     (replicate 2 0) = ([0x83, 0x81], None, [[0x37, 0xfa, 0x21, 0x3d, 0x7f]])"
    by (simp add: rw_Read_def chunk_rd_def copy_def)
  have o1: "[0x88, 0x80 :: byte] ! 0 AND 0x0F = opCodeClose"
    by (simp add: opCodeClose_def)
  have o2: "[0x83, 0x81 :: byte] ! 0 AND 0x0F \<notin>
     {opCodeText, opCodeBinary, opCodePing, opCodePong, opCodeClose}"
    by (simp add: opCodeText_def opCodeBinary_def opCodePing_def opCodePong_def opCodeClose_def)
  from Read_close_unknown_opcode [OF h1, of "[0, 0]"]
       Read_close_unknown_opcode [OF h2, of "[0, 0]"] h1 h2 o1 o2
  show ?thesis by simp
qed

lemma buffer_update_same: "buffer c = v \<Longrightarrow> c\<lparr>buffer := v\<rparr> = c"
  by auto

lemma Write_inv:
  "Write wr fl c p = (n, err, c') \<Longrightarrow> buffer c' = buffer c \<and> rw_Reader c' = rw_Reader c"
  by (auto simp: Write_def Let_def split: prod.splits if_splits)

lemma run_buffer_inv:
  "buffer c0 \<noteq> Some [] \<Longrightarrow> run rd wr fl c0 calls = Some c \<Longrightarrow> buffer c \<noteq> Some []"
proof (induction calls arbitrary: c0)
  case Nil
  then show ?case by simp
next
  case (Cons a calls)
  show ?case
  proof (cases a)
    case (Call_Read p)
    with Cons.prems obtain n err p' c1 where
      r: "Read rd c0 p = Some (Return n err p' c1)" and rest: "run rd wr fl c1 calls = Some c"
      by (auto split: option.splits result.splits)
    from Read_inv [OF r] Cons.prems(1) have "buffer c1 \<noteq> Some []" by simp
    from Cons.IH [OF this rest] show ?thesis .
  next
    case (Call_Write p)
    with Cons.prems obtain n err c1 where
      w: "Write wr fl c0 p = (n, err, c1)" and rest: "run rd wr fl c1 calls = Some c"
      by (auto split: prod.splits)
    from Write_inv [OF w] Cons.prems(1) have "buffer c1 \<noteq> Some []" by simp
    from Cons.IH [OF this rest] show ?thesis .
  qed
qed

text \<open>
  C7. The leftover buffer. In every state a connection reaches from its creation by
  calls of \<open>Read\<close> and \<open>Write\<close>, the leftover buffer is \<open>nil\<close> or non-empty. When it is
  not \<open>nil\<close>, \<open>Read\<close> copies \<open>n = min(len(p), len(buffer))\<close> bytes of it into \<open>p\<close>,
  keeps the rest (\<open>nil\<close> if nothing is left) and leaves the reader of the transport as
  it was, whatever the transport would deliver. A call of \<open>Read\<close> that changes the
  reader, as reading a frame header does, is a call on a \<open>nil\<close> leftover buffer.
\<close>

theorem leftover_drained_before_next_frame:
  assumes "buffer c0 = None" and "run rd wr fl c0 calls = Some c"
  shows "(buffer c = None \<or> (\<exists>b. buffer c = Some b \<and> b \<noteq> [])) \<and>
         (\<forall>b. buffer c = Some b \<longrightarrow>
            (let n = min (length p) (length b) in
             Read rd c p =
               Some (Return n None (take n b @ drop n p)
                       (c\<lparr>buffer := (if n = length b then None else Some (drop n b))\<rparr>)))) \<and>
         (\<forall>n e p' c'. Read rd c p = Some (Return n e p' c') \<longrightarrow>
            rw_Reader c' \<noteq> rw_Reader c \<longrightarrow> buffer c = None)"
proof (intro conjI allI impI)
  from run_buffer_inv [OF _ assms(2)] assms(1) have "buffer c \<noteq> Some []" by simp
  then show "buffer c = None \<or> (\<exists>b. buffer c = Some b \<and> b \<noteq> [])"
    by (cases "buffer c") auto
next
  fix b assume "buffer c = Some b"
  from Read_buffered [OF this, of rd p]
  show "let n = min (length p) (length b) in
             Read rd c p =
               Some (Return n None (take n b @ drop n p)
                       (c\<lparr>buffer := (if n = length b then None else Some (drop n b))\<rparr>))"
    by (simp add: Let_def)
next
  fix n e p' c'
  assume r: "Read rd c p = Some (Return n e p' c')" and ne: "rw_Reader c' \<noteq> rw_Reader c"
  show "buffer c = None"
  proof (cases "buffer c")
    case None then show ?thesis .
  next
    case (Some b)
    from Read_buffered [OF Some, of rd p] r ne show ?thesis by auto
  qed
qed


theorem leftover_drained_before_next_frame_witness:
  "buffer \<lparr>rw_Reader = [[0x81, 0x85, 0x37, 0xfa, 0x21, 0x3d, 0x7f, 0x9f, 0x4d, 0x51, 0x58 :: byte]],
           rw_Writer = ([] :: byte list), buffer = None\<rparr> = None \<and>
   run chunk_rd buf_wr buf_fl
     \<lparr>rw_Reader = [[0x81, 0x85, 0x37, 0xfa, 0x21, 0x3d, 0x7f, 0x9f, 0x4d, 0x51, 0x58]],
      rw_Writer = [], buffer = None\<rparr>
     [Call_Read [0, 0]] =
     Some \<lparr>rw_Reader = [], rw_Writer = [], buffer = Some [0x6c, 0x6c, 0x6f]\<rparr> \<and>
   Read chunk_rd \<lparr>rw_Reader = [], rw_Writer = ([] :: byte list), buffer = Some [0x6c, 0x6c, 0x6f]\<rparr>
     [0, 0] =
     Some (Return 2 None [0x6c, 0x6c] \<lparr>rw_Reader = [], rw_Writer = [], buffer = Some [0x6f]\<rparr>) \<and>
   run chunk_rd buf_wr buf_fl
     \<lparr>rw_Reader = [[0x81, 0x85, 0x37, 0xfa, 0x21, 0x3d, 0x7f, 0x9f, 0x4d, 0x51, 0x58]],
      rw_Writer = [], buffer = None\<rparr> [] =
     Some \<lparr>rw_Reader = [[0x81, 0x85, 0x37, 0xfa, 0x21, 0x3d, 0x7f, 0x9f, 0x4d, 0x51, 0x58]],
      rw_Writer = [], buffer = None\<rparr> \<and>
   Read chunk_rd
     \<lparr>rw_Reader = [[0x81, 0x85, 0x37, 0xfa, 0x21, 0x3d, 0x7f, 0x9f, 0x4d, 0x51, 0x58]],
      rw_Writer = ([] :: byte list), buffer = None\<rparr> [0, 0] =
     Some (Return 2 None [0x48, 0x65]
       \<lparr>rw_Reader = [], rw_Writer = [], buffer = Some [0x6c, 0x6c, 0x6f]\<rparr>) \<and>
   rw_Reader \<lparr>rw_Reader = ([] :: byte list list), rw_Writer = ([] :: byte list),
              buffer = Some [0x6c, 0x6c, 0x6f]\<rparr> \<noteq>
   rw_Reader \<lparr>rw_Reader = [[0x81, 0x85, 0x37, 0xfa, 0x21, 0x3d, 0x7f, 0x9f, 0x4d, 0x51, 0x58 :: byte]],
      rw_Writer = ([] :: byte list), buffer = None\<rparr>"
proof -
  let ?c0 = "\<lparr>rw_Reader = [[0x81, 0x85, 0x37, 0xfa, 0x21, 0x3d, 0x7f, 0x9f, 0x4d, 0x51, 0x58 :: byte]],
      rw_Writer = ([] :: byte list), buffer = None\<rparr>"
  let ?c1 = "\<lparr>rw_Reader = ([] :: byte list list), rw_Writer = ([] :: byte list),
      buffer = Some [0x6c, 0x6c, 0x6f]\<rparr>"
  have b0: "buffer ?c0 = None" by simp
  have r0: "Read chunk_rd ?c0 [0, 0] = Some (Return 2 None [0x48, 0x65] ?c1)"
    by (simp add: Read_eval)
  have run1: "run chunk_rd buf_wr buf_fl ?c0 [Call_Read [0, 0]] = Some ?c1"
    by (simp add: r0)
  have run0: "run chunk_rd buf_wr buf_fl ?c0 [] = Some ?c0"
    by simp
  from leftover_drained_before_next_frame [OF b0 run1, of "[0, 0]"]
       leftover_drained_before_next_frame [OF b0 run0, of "[0, 0]"] b0 r0 run1 run0
  show ?thesis by (simp add: Let_def)
qed


subsection \<open>Reading a frame through a small buffer\<close>

lemma read_calls_partial:
  "buffer c = Some b \<Longrightarrow> sz * j < length b \<Longrightarrow>
   \<exists>chunks. read_calls rd sz j c = Some (chunks, c\<lparr>buffer := Some (drop (sz * j) b)\<rparr>) \<and>
     map fst chunks = replicate j sz \<and> concat (map snd chunks) = take (sz * j) b"
proof (induction j arbitrary: c b)
  case 0
  then show ?case by (simp add: buffer_update_same)
next
  case (Suc j)
  from Suc.prems(2) have lt: "sz < length b" and rest: "sz * j < length (drop sz b)"
    by (auto simp: algebra_simps)
  let ?c1 = "c\<lparr>buffer := Some (drop sz b)\<rparr>"
  have r: "Read rd c (replicate sz 0) = Some (Return sz None (take sz b) ?c1)"
    using Read_buffered [OF Suc.prems(1), of rd "replicate sz 0"] lt by (simp add: min_def)
  have "buffer ?c1 = Some (drop sz b)" by simp
  from Suc.IH [OF this rest] obtain chunks where
    c: "read_calls rd sz j ?c1 = Some (chunks, ?c1\<lparr>buffer := Some (drop (sz * j) (drop sz b))\<rparr>)"
    and f: "map fst chunks = replicate j sz"
    and s: "concat (map snd chunks) = take (sz * j) (drop sz b)"
    by blast
  have "read_calls rd sz (Suc j) c =
      Some ((sz, take sz b) # chunks, c\<lparr>buffer := Some (drop (sz * Suc j) b)\<rparr>)"
    using lt by (simp add: r c add.commute)
  moreover have "concat (map snd ((sz, take sz b) # chunks)) = take (sz * Suc j) b"
    using s by (simp add: take_add)
  ultimately show ?case using f by auto
qed

lemma read_calls_drain:
  "buffer c = Some b \<Longrightarrow> length b = sz * k \<Longrightarrow> 0 < sz \<Longrightarrow> 0 < k \<Longrightarrow>
   \<exists>chunks. read_calls rd sz k c = Some (chunks, c\<lparr>buffer := None\<rparr>) \<and>
     map fst chunks = replicate k sz \<and> concat (map snd chunks) = b"
proof (induction k arbitrary: c b)
  case 0
  then show ?case by simp
next
  case (Suc k)
  show ?case
  proof (cases "k = 0")
    case True
    with Suc.prems have len: "length b = sz" by simp
    have "Read rd c (replicate sz 0) = Some (Return sz None b (c\<lparr>buffer := None\<rparr>))"
      using Read_buffered [OF Suc.prems(1), of rd "replicate sz 0"] len by simp
    with True len show ?thesis by simp
  next
    case False
    with Suc.prems have lt: "sz < length b" and rest: "length (drop sz b) = sz * k"
      by auto
    let ?c1 = "c\<lparr>buffer := Some (drop sz b)\<rparr>"
    have r: "Read rd c (replicate sz 0) = Some (Return sz None (take sz b) ?c1)"
      using Read_buffered [OF Suc.prems(1), of rd "replicate sz 0"] lt by (simp add: min_def)
    have "buffer ?c1 = Some (drop sz b)" by simp
    from Suc.IH [OF this rest Suc.prems(3)] False obtain chunks where
      c: "read_calls rd sz k ?c1 = Some (chunks, ?c1\<lparr>buffer := None\<rparr>)"
      and f: "map fst chunks = replicate k sz"
      and s: "concat (map snd chunks) = drop sz b"
      by auto
    have "read_calls rd sz (Suc k) c = Some ((sz, take sz b) # chunks, c\<lparr>buffer := None\<rparr>)"
      using lt by (simp add: r c)
    with f s show ?thesis by auto
  qed
qed

lemma Read_frame_1000:
  assumes buf: "buffer c = None"
    and srv: "serves rd (rw_Reader c) (frame_reads [b0, b1, 0x03, 0xE8] key body) r'"
    and op: "b0 AND 0x0F = opCodeText \<or> b0 AND 0x0F = opCodeBinary"
    and ind: "b1 AND 0x7F = 0x7E"
    and key: "length key = 4"
    and len: "length body = 1000"
  shows "Read rd c (replicate 100 0) =
     Some (Return 100 None (take 100 (unmask_loop 0 key body))
       (c\<lparr>rw_Reader := r', buffer := Some (drop 100 (unmask_loop 0 key body))\<rparr>))"
proof -
  from srv obtain r1 where
    h: "rw_Read rd (rw_Reader c) (replicate 2 0) = ([b0, b1], None, r1)"
    and rest1: "serves rd r1 [[0x03, 0xE8], key, body] r'"
    using serves_Cons [of rd "rw_Reader c" "[b0, b1]" "[[0x03, 0xE8], key, body]" r']
    by (auto simp: frame_reads_def numeral_2_eq_2)
  from rest1 obtain r2 where
    e: "rw_Read rd r1 (replicate 2 0) = ([0x03, 0xE8], None, r2)"
    and rest: "serves rd r2 [key, body] r'"
    using serves_Cons [of rd r1 "[0x03, 0xE8]" "[key, body]" r']
    by (auto simp: numeral_2_eq_2)
  have alloc: "int (length body) \<le> maxAlloc"
    by (simp add: len maxAlloc_def)
  have val: "go_int (push_bit 8 (ucast (0x03 :: byte)) OR ucast (0xE8 :: byte)) = 1000"
    by (simp add: go_int_def)
  have "Read rd c (replicate 100 0) =
      Some (Read_text_binary rd (c\<lparr>rw_Reader := r1\<rparr>) (replicate 100 0) 126)"
    using Read_frames_text [OF h, of "replicate 100 0"] op ind buf
    by (simp add: Read_unbuffered)
  also have "Read_text_binary rd (c\<lparr>rw_Reader := r1\<rparr>) (replicate 100 0) 126 =
     (if length (replicate 100 (0 :: byte)) < length body then
        Return (length (replicate 100 (0 :: byte))) None
          (take (length (replicate 100 (0 :: byte))) (unmask_loop 0 key body))
          (c\<lparr>rw_Reader := r1\<rparr>\<lparr>rw_Reader := r',
             buffer := Some (drop (length (replicate 100 (0 :: byte))) (unmask_loop 0 key body))\<rparr>)
      else
        Return (length body) None (unmask_loop 0 key body @ drop (length body) (replicate 100 0))
          (c\<lparr>rw_Reader := r1\<rparr>\<lparr>rw_Reader := r'\<rparr>))"
    using val by (intro Read_text_binary_tail [OF _ rest key alloc]) (simp add: e len)
  finally show ?thesis by (simp add: len)
qed

text \<open>
  C6. Partial reads. The transport delivers one text or binary frame whose length
  indicator is 126 with the extended length \<open>0x03E8\<close>, that is 1000, a mask key and
  1000 payload bytes. A caller reading with fresh 100-byte buffers gets the payload in
  exactly 10 calls: the 10 calls return 100 each, the chunks put together are the
  unmasked payload, the leftover buffer is \<open>nil\<close> again and the transport has been read
  up to the end of the frame and no further; after any smaller number \<open>j\<close> of calls the
  caller holds the first \<open>100 * j\<close> bytes only and the leftover buffer is not \<open>nil\<close>.
\<close>

theorem partial_read_reconstruction:
  assumes buf: "buffer c = None"
    and srv: "serves rd (rw_Reader c) (frame_reads [b0, b1, 0x03, 0xE8] key body) r'"
    and op: "b0 AND 0x0F = opCodeText \<or> b0 AND 0x0F = opCodeBinary"
    and ind: "b1 AND 0x7F = 0x7E"
    and key: "length key = 4"
    and len: "length body = 1000"
  shows "(\<exists>chunks. read_calls rd 100 10 c = Some (chunks, c\<lparr>rw_Reader := r'\<rparr>) \<and>
            map fst chunks = replicate 10 100 \<and>
            concat (map snd chunks) = unmask_loop 0 key body) \<and>
         (\<forall>j. 0 < j \<and> j < 10 \<longrightarrow>
            (\<exists>chunks c'. read_calls rd 100 j c = Some (chunks, c') \<and>
               buffer c' \<noteq> None \<and>
               map fst chunks = replicate j 100 \<and>
               concat (map snd chunks) = take (100 * j) (unmask_loop 0 key body)))"
proof (intro conjI allI impI)
  let ?pl = "unmask_loop 0 key body"
  let ?c1 = "c\<lparr>rw_Reader := r', buffer := Some (drop 100 ?pl)\<rparr>"
  have first: "Read rd c (replicate 100 0) = Some (Return 100 None (take 100 ?pl) ?c1)"
    using assms by (rule Read_frame_1000)
  have lpl: "length ?pl = 1000" by (simp add: length_unmask_loop len)
  have b1: "buffer ?c1 = Some (drop 100 ?pl)" by simp
  {
    have "length (drop 100 ?pl) = 100 * 9" by (simp add: lpl)
    from read_calls_drain [OF b1 this, of rd] obtain chunks where
      c: "read_calls rd 100 9 ?c1 = Some (chunks, ?c1\<lparr>buffer := None\<rparr>)"
      and f: "map fst chunks = replicate 9 100"
      and s: "concat (map snd chunks) = drop 100 ?pl"
      by auto
    have e: "?c1\<lparr>buffer := None\<rparr> = c\<lparr>rw_Reader := r'\<rparr>"
      using buf by auto
    have "read_calls rd 100 10 c = Some ((100, take 100 ?pl) # chunks, c\<lparr>rw_Reader := r'\<rparr>)"
      using read_calls.simps(2) [of rd 100 9 c] by (simp add: first c e lpl)
    moreover have "map fst ((100, take 100 ?pl) # chunks) = replicate 10 100"
      using f by (simp add: replicate_numeral)
    moreover have "concat (map snd ((100, take 100 ?pl) # chunks)) = ?pl"
      using s by simp
    ultimately show "\<exists>chunks. read_calls rd 100 10 c = Some (chunks, c\<lparr>rw_Reader := r'\<rparr>) \<and>
            map fst chunks = replicate 10 100 \<and> concat (map snd chunks) = ?pl"
      by blast
  }
  fix j :: nat
  assume j: "0 < j \<and> j < 10"
  then obtain i where ji: "j = Suc i" and i: "i < 9"
    by (cases j) auto
  have "100 * i < length (drop 100 ?pl)" using i by (simp add: lpl)
  from read_calls_partial [OF b1 this, of rd] obtain chunks where
    c: "read_calls rd 100 i ?c1 = Some (chunks, ?c1\<lparr>buffer := Some (drop (100 * i) (drop 100 ?pl))\<rparr>)"
    and f: "map fst chunks = replicate i 100"
    and s: "concat (map snd chunks) = take (100 * i) (drop 100 ?pl)"
    by blast
  have "read_calls rd 100 j c =
      Some ((100, take 100 ?pl) # chunks, ?c1\<lparr>buffer := Some (drop (100 * i) (drop 100 ?pl))\<rparr>)"
    unfolding ji by (simp add: first c lpl)
  moreover have "concat (map snd ((100, take 100 ?pl) # chunks)) = take (100 * j) ?pl"
    unfolding ji using s by (simp add: take_add)
  moreover have "map fst ((100, take 100 ?pl) # chunks) = replicate j 100"
    unfolding ji using f by simp
  ultimately show "\<exists>chunks c'. read_calls rd 100 j c = Some (chunks, c') \<and>
               buffer c' \<noteq> None \<and>
               map fst chunks = replicate j 100 \<and>
               concat (map snd chunks) = take (100 * j) ?pl"
    by auto
qed


theorem partial_read_reconstruction_witness:
  "buffer \<lparr>rw_Reader = [[0x81, 0xFE, 0x03, 0xE8, 0x37, 0xfa, 0x21, 0x3d] @ replicate 1000 0x41],
      rw_Writer = ([] :: byte list), buffer = None\<rparr> = None \<and>
   serves chunk_rd (rw_Reader \<lparr>rw_Reader = [[0x81, 0xFE, 0x03, 0xE8, 0x37, 0xfa, 0x21, 0x3d] @ replicate 1000 0x41],
      rw_Writer = ([] :: byte list), buffer = None\<rparr>)
     (frame_reads [0x81, 0xFE, 0x03, 0xE8] [0x37, 0xfa, 0x21, 0x3d] (replicate 1000 0x41)) [] \<and>
   ((0x81 :: byte) AND 0x0F = opCodeText \<or> (0x81 :: byte) AND 0x0F = opCodeBinary) \<and>
   (0xFE :: byte) AND 0x7F = 0x7E \<and>
   length ([0x37, 0xfa, 0x21, 0x3d] :: byte list) = 4 \<and>
   length (replicate 1000 (0x41 :: byte)) = 1000 \<and>
   (\<exists>chunks. read_calls chunk_rd 100 10 \<lparr>rw_Reader = [[0x81, 0xFE, 0x03, 0xE8, 0x37, 0xfa, 0x21, 0x3d] @ replicate 1000 0x41],
      rw_Writer = ([] :: byte list), buffer = None\<rparr> =
        Some (chunks, \<lparr>rw_Reader = [[0x81, 0xFE, 0x03, 0xE8, 0x37, 0xfa, 0x21, 0x3d] @ replicate 1000 0x41],
      rw_Writer = ([] :: byte list), buffer = None\<rparr>\<lparr>rw_Reader := []\<rparr>) \<and>
      map fst chunks = replicate 10 100 \<and>
      concat (map snd chunks) = unmask_loop 0 [0x37, 0xfa, 0x21, 0x3d] (replicate 1000 0x41)) \<and>
   (0 :: nat) < 3 \<and> (3 :: nat) < 10 \<and>
   (\<exists>chunks c'. read_calls chunk_rd 100 3 \<lparr>rw_Reader = [[0x81, 0xFE, 0x03, 0xE8, 0x37, 0xfa, 0x21, 0x3d] @ replicate 1000 0x41],
      rw_Writer = ([] :: byte list), buffer = None\<rparr> = Some (chunks, c') \<and>
      buffer c' \<noteq> None \<and>
      map fst chunks = replicate 3 100 \<and>
      concat (map snd chunks) = take (100 * 3) (unmask_loop 0 [0x37, 0xfa, 0x21, 0x3d] (replicate 1000 0x41)))"
proof -
  let ?c = "\<lparr>rw_Reader = [[0x81, 0xFE, 0x03, 0xE8, 0x37, 0xfa, 0x21, 0x3d] @ replicate 1000 0x41],
      rw_Writer = ([] :: byte list), buffer = None\<rparr>"
  have b: "buffer ?c = None" by simp
  have s: "serves chunk_rd (rw_Reader ?c)
     (frame_reads [0x81, 0xFE, 0x03, 0xE8] [0x37, 0xfa, 0x21, 0x3d] (replicate 1000 0x41)) []"
    by (simp add: frame_reads_def chunk_rd_def)
  have o: "(0x81 :: byte) AND 0x0F = opCodeText \<or> (0x81 :: byte) AND 0x0F = opCodeBinary"
    by (simp add: opCodeText_def)
  have i: "(0xFE :: byte) AND 0x7F = 0x7E" by simp
  have k: "length ([0x37, 0xfa, 0x21, 0x3d] :: byte list) = 4" by simp
  have l: "length (replicate 1000 (0x41 :: byte)) = 1000" by simp
  note t = partial_read_reconstruction [OF b s o i k l]
  from t have A: "\<exists>chunks. read_calls chunk_rd 100 10 ?c =
        Some (chunks, ?c\<lparr>rw_Reader := []\<rparr>) \<and>
      map fst chunks = replicate 10 100 \<and>
      concat (map snd chunks) = unmask_loop 0 [0x37, 0xfa, 0x21, 0x3d] (replicate 1000 0x41)"
    by (rule conjunct1)
  from t have "\<forall>j. 0 < j \<and> j < 10 \<longrightarrow>
            (\<exists>chunks c'. read_calls chunk_rd 100 j ?c = Some (chunks, c') \<and>
               buffer c' \<noteq> None \<and>
               map fst chunks = replicate j 100 \<and>
               concat (map snd chunks) = take (100 * j) (unmask_loop 0 [0x37, 0xfa, 0x21, 0x3d] (replicate 1000 0x41)))"
    by (rule conjunct2)
  then have B: "\<exists>chunks c'. read_calls chunk_rd 100 3 ?c = Some (chunks, c') \<and>
      buffer c' \<noteq> None \<and>
      map fst chunks = replicate 3 100 \<and>
      concat (map snd chunks) = take (100 * 3) (unmask_loop 0 [0x37, 0xfa, 0x21, 0x3d] (replicate 1000 0x41))"
    by (elim allE [of _ 3]) simp
  show ?thesis
    using b s o i k l A B by (intro conjI) simp_all
qed


section \<open>The handshake\<close>

text \<open>
  C3. \<open>Upgrade\<close> checks, in this order, that \<open>Connection\<close> is \<open>Upgrade\<close>, that \<open>Upgrade\<close> is
  \<open>websocket\<close>, that \<open>Sec-WebSocket-Version\<close> is \<open>13\<close> and that \<open>Sec-WebSocket-Key\<close> is
  not empty. The first check that fails decides the error; the four errors are pairwise
  different; a failing \<open>Upgrade\<close> returns no connection and leaves the response writer
  as it was: nothing is written and the connection is not hijacked. When all four
  checks pass, the hijack is attempted.
\<close>

theorem Upgrade_validation:
  "(Get ''Connection'' \<noteq> ''Upgrade'' \<longrightarrow>
      Upgrade Get hijack w = (None, Some (errors_New ''missing 'connection' header''), w)) \<and>
   (Get ''Connection'' = ''Upgrade'' \<and> Get ''Upgrade'' \<noteq> ''websocket'' \<longrightarrow>
      Upgrade Get hijack w = (None, Some (errors_New ''missing 'upgrade' header''), w)) \<and>
   (Get ''Connection'' = ''Upgrade'' \<and> Get ''Upgrade'' = ''websocket'' \<and>
    Get ''Sec-WebSocket-Version'' \<noteq> ''13'' \<longrightarrow>
      Upgrade Get hijack w = (None, Some (errors_New ''invalid version''), w)) \<and>
   (Get ''Connection'' = ''Upgrade'' \<and> Get ''Upgrade'' = ''websocket'' \<and>
    Get ''Sec-WebSocket-Version'' = ''13'' \<and> Get ''Sec-WebSocket-Key'' = [] \<longrightarrow>
      Upgrade Get hijack w =
        (None, Some (errors_New ''missing 'sec-websocket-key' header''), w)) \<and>
   (Get ''Connection'' = ''Upgrade'' \<and> Get ''Upgrade'' = ''websocket'' \<and>
    Get ''Sec-WebSocket-Version'' = ''13'' \<and> Get ''Sec-WebSocket-Key'' \<noteq> [] \<longrightarrow>
      hijacked (snd (snd (Upgrade Get hijack w)))) \<and>
   distinct [errors_New ''missing 'connection' header'', errors_New ''missing 'upgrade' header'',
     errors_New ''invalid version'', errors_New ''missing 'sec-websocket-key' header'']"
  by (auto simp: Upgrade_def Let_def split: sum.splits)

theorem Upgrade_validation_witness:
  "((\<lambda>k. [])(''Connection'' := ''keep-alive'', ''Upgrade'' := ''websocket'', ''Sec-WebSocket-Version'' := ''13'', ''Sec-WebSocket-Key'' := ''dGhlIHNhbXBsZSBub25jZQ==''))
     ''Connection'' \<noteq> ''Upgrade'' \<and>
   Upgrade
     ((\<lambda>k. [])(''Connection'' := ''keep-alive'', ''Upgrade'' := ''websocket'', ''Sec-WebSocket-Version'' := ''13'', ''Sec-WebSocket-Key'' := ''dGhlIHNhbXBsZSBub25jZQ==''))
     (Inr ([], []) :: error + byte list list \<times> byte list)
     \<lparr>Header = Map.empty, status = None, hijacked = False\<rparr> =
     (None, Some (errors_New ''missing 'connection' header''),
      \<lparr>Header = Map.empty, status = None, hijacked = False\<rparr>) \<and>
   ((\<lambda>k. [])(''Connection'' := ''Upgrade'', ''Upgrade'' := ''h2c'', ''Sec-WebSocket-Version'' := ''13'', ''Sec-WebSocket-Key'' := ''dGhlIHNhbXBsZSBub25jZQ==''))
     ''Connection'' = ''Upgrade'' \<and>
   ((\<lambda>k. [])(''Connection'' := ''Upgrade'', ''Upgrade'' := ''h2c'', ''Sec-WebSocket-Version'' := ''13'', ''Sec-WebSocket-Key'' := ''dGhlIHNhbXBsZSBub25jZQ==''))
     ''Upgrade'' \<noteq> ''websocket'' \<and>
   Upgrade
     ((\<lambda>k. [])(''Connection'' := ''Upgrade'', ''Upgrade'' := ''h2c'', ''Sec-WebSocket-Version'' := ''13'', ''Sec-WebSocket-Key'' := ''dGhlIHNhbXBsZSBub25jZQ==''))
     (Inr ([], []) :: error + byte list list \<times> byte list)
     \<lparr>Header = Map.empty, status = None, hijacked = False\<rparr> =
     (None, Some (errors_New ''missing 'upgrade' header''),
      \<lparr>Header = Map.empty, status = None, hijacked = False\<rparr>) \<and>
   ((\<lambda>k. [])(''Connection'' := ''Upgrade'', ''Upgrade'' := ''websocket'', ''Sec-WebSocket-Version'' := ''8'', ''Sec-WebSocket-Key'' := ''dGhlIHNhbXBsZSBub25jZQ==''))
     ''Connection'' = ''Upgrade'' \<and>
   ((\<lambda>k. [])(''Connection'' := ''Upgrade'', ''Upgrade'' := ''websocket'', ''Sec-WebSocket-Version'' := ''8'', ''Sec-WebSocket-Key'' := ''dGhlIHNhbXBsZSBub25jZQ==''))
     ''Upgrade'' = ''websocket'' \<and>
   ((\<lambda>k. [])(''Connection'' := ''Upgrade'', ''Upgrade'' := ''websocket'', ''Sec-WebSocket-Version'' := ''8'', ''Sec-WebSocket-Key'' := ''dGhlIHNhbXBsZSBub25jZQ==''))
     ''Sec-WebSocket-Version'' \<noteq> ''13'' \<and>
   Upgrade
     ((\<lambda>k. [])(''Connection'' := ''Upgrade'', ''Upgrade'' := ''websocket'', ''Sec-WebSocket-Version'' := ''8'', ''Sec-WebSocket-Key'' := ''dGhlIHNhbXBsZSBub25jZQ==''))
     (Inr ([], []) :: error + byte list list \<times> byte list)
     \<lparr>Header = Map.empty, status = None, hijacked = False\<rparr> =
     (None, Some (errors_New ''invalid version''),
      \<lparr>Header = Map.empty, status = None, hijacked = False\<rparr>) \<and>
   ((\<lambda>k. [])(''Connection'' := ''Upgrade'', ''Upgrade'' := ''websocket'', ''Sec-WebSocket-Version'' := ''13''))
     ''Connection'' = ''Upgrade'' \<and>
   ((\<lambda>k. [])(''Connection'' := ''Upgrade'', ''Upgrade'' := ''websocket'', ''Sec-WebSocket-Version'' := ''13''))
     ''Upgrade'' = ''websocket'' \<and>
   ((\<lambda>k. [])(''Connection'' := ''Upgrade'', ''Upgrade'' := ''websocket'', ''Sec-WebSocket-Version'' := ''13''))
     ''Sec-WebSocket-Version'' = ''13'' \<and>
   ((\<lambda>k. [])(''Connection'' := ''Upgrade'', ''Upgrade'' := ''websocket'', ''Sec-WebSocket-Version'' := ''13''))
     ''Sec-WebSocket-Key'' = [] \<and>
   Upgrade
     ((\<lambda>k. [])(''Connection'' := ''Upgrade'', ''Upgrade'' := ''websocket'', ''Sec-WebSocket-Version'' := ''13''))
     (Inr ([], []) :: error + byte list list \<times> byte list)
     \<lparr>Header = Map.empty, status = None, hijacked = False\<rparr> =
     (None, Some (errors_New ''missing 'sec-websocket-key' header''),
      \<lparr>Header = Map.empty, status = None, hijacked = False\<rparr>) \<and>
   ((\<lambda>k. [])(''Connection'' := ''Upgrade'', ''Upgrade'' := ''websocket'', ''Sec-WebSocket-Version'' := ''13'', ''Sec-WebSocket-Key'' := ''dGhlIHNhbXBsZSBub25jZQ==''))
     ''Connection'' = ''Upgrade'' \<and>
   ((\<lambda>k. [])(''Connection'' := ''Upgrade'', ''Upgrade'' := ''websocket'', ''Sec-WebSocket-Version'' := ''13'', ''Sec-WebSocket-Key'' := ''dGhlIHNhbXBsZSBub25jZQ==''))
     ''Upgrade'' = ''websocket'' \<and>
   ((\<lambda>k. [])(''Connection'' := ''Upgrade'', ''Upgrade'' := ''websocket'', ''Sec-WebSocket-Version'' := ''13'', ''Sec-WebSocket-Key'' := ''dGhlIHNhbXBsZSBub25jZQ==''))
     ''Sec-WebSocket-Version'' = ''13'' \<and>
   ((\<lambda>k. [])(''Connection'' := ''Upgrade'', ''Upgrade'' := ''websocket'', ''Sec-WebSocket-Version'' := ''13'', ''Sec-WebSocket-Key'' := ''dGhlIHNhbXBsZSBub25jZQ==''))
     ''Sec-WebSocket-Key'' \<noteq> [] \<and>
   hijacked (snd (snd (Upgrade
     ((\<lambda>k. [])(''Connection'' := ''Upgrade'', ''Upgrade'' := ''websocket'', ''Sec-WebSocket-Version'' := ''13'', ''Sec-WebSocket-Key'' := ''dGhlIHNhbXBsZSBub25jZQ==''))
     (Inr ([], []) :: error + byte list list \<times> byte list)
     \<lparr>Header = Map.empty, status = None, hijacked = False\<rparr>)))"
  using
    Upgrade_validation
      [of "((\<lambda>k. [])(''Connection'' := ''keep-alive'', ''Upgrade'' := ''websocket'', ''Sec-WebSocket-Version'' := ''13'', ''Sec-WebSocket-Key'' := ''dGhlIHNhbXBsZSBub25jZQ==''))"
          "Inr ([], []) :: error + byte list list \<times> byte list"
          "\<lparr>Header = Map.empty, status = None, hijacked = False\<rparr>"]
    Upgrade_validation
      [of "((\<lambda>k. [])(''Connection'' := ''Upgrade'', ''Upgrade'' := ''h2c'', ''Sec-WebSocket-Version'' := ''13'', ''Sec-WebSocket-Key'' := ''dGhlIHNhbXBsZSBub25jZQ==''))"
          "Inr ([], []) :: error + byte list list \<times> byte list"
          "\<lparr>Header = Map.empty, status = None, hijacked = False\<rparr>"]
    Upgrade_validation
      [of "((\<lambda>k. [])(''Connection'' := ''Upgrade'', ''Upgrade'' := ''websocket'', ''Sec-WebSocket-Version'' := ''8'', ''Sec-WebSocket-Key'' := ''dGhlIHNhbXBsZSBub25jZQ==''))"
          "Inr ([], []) :: error + byte list list \<times> byte list"
          "\<lparr>Header = Map.empty, status = None, hijacked = False\<rparr>"]
    Upgrade_validation
      [of "((\<lambda>k. [])(''Connection'' := ''Upgrade'', ''Upgrade'' := ''websocket'', ''Sec-WebSocket-Version'' := ''13''))"
          "Inr ([], []) :: error + byte list list \<times> byte list"
          "\<lparr>Header = Map.empty, status = None, hijacked = False\<rparr>"]
    Upgrade_validation
      [of "((\<lambda>k. [])(''Connection'' := ''Upgrade'', ''Upgrade'' := ''websocket'', ''Sec-WebSocket-Version'' := ''13'', ''Sec-WebSocket-Key'' := ''dGhlIHNhbXBsZSBub25jZQ==''))"
          "Inr ([], []) :: error + byte list list \<times> byte list"
          "\<lparr>Header = Map.empty, status = None, hijacked = False\<rparr>"]
  by simp

section \<open>The accept key of the RFC's example\<close>

text \<open>
  The computation of \<open>hashKey\<close> at the sample key of RFC 6455 is checked in steps: the
  message, its padding to two blocks, the rounds of each block twenty at a time, the
  digest and its base64 encoding.
\<close>

lemma sha1_rounds_split:
  "i \<le> m \<Longrightarrow> m \<le> n \<Longrightarrow> sha1_rounds n i s = sha1_rounds n m (sha1_rounds m i s)"
proof (induction m i s rule: sha1_rounds.induct)
  case (1 m i s)
  show ?case
  proof (cases "i < m")
    case True
    with "1" show ?thesis
      by (subst sha1_rounds.simps, subst (3) sha1_rounds.simps) simp
  next
    case False
    with "1.prems" show ?thesis
      by (subst (3) sha1_rounds.simps) simp
  qed
qed

lemma sha1_rounds_80:
  "sha1_rounds 80 0 s = sha1_rounds 80 60 (sha1_rounds 60 40 (sha1_rounds 40 20 (sha1_rounds 20 0 s)))"
proof -
  have "sha1_rounds 80 0 s = sha1_rounds 80 20 (sha1_rounds 20 0 s)"
    by (rule sha1_rounds_split) simp_all
  also have "\<dots> = sha1_rounds 80 40 (sha1_rounds 40 20 (sha1_rounds 20 0 s))"
    by (rule sha1_rounds_split) simp_all
  also have "\<dots> = sha1_rounds 80 60 (sha1_rounds 60 40 (sha1_rounds 40 20 (sha1_rounds 20 0 s)))"
    by (rule sha1_rounds_split) simp_all
  finally show ?thesis .
qed

lemmas sha1_step_eval =
  sha1_step_def RotateLeft32_def add32_def sha1_f_def sha1_K_def sha1_rounds.simps

lemma sample_message:
  "bytes_of (''dGhlIHNhbXBsZSBub25jZQ=='' @ magicWebsocketGUID) =
    [0x64, 0x47, 0x68, 0x6c, 0x49, 0x48, 0x4e, 0x68, 0x62, 0x58, 0x42, 0x73,
     0x5a, 0x53, 0x42, 0x75, 0x62, 0x32, 0x35, 0x6a, 0x5a, 0x51, 0x3d, 0x3d,
     0x32, 0x35, 0x38, 0x45, 0x41, 0x46, 0x41, 0x35, 0x2d, 0x45, 0x39, 0x31,
     0x34, 0x2d, 0x34, 0x37, 0x44, 0x41, 0x2d, 0x39, 0x35, 0x43, 0x41, 0x2d,
     0x43, 0x35, 0x41, 0x42, 0x30, 0x44, 0x43, 0x38, 0x35, 0x42, 0x31, 0x31]"
  by (simp add: bytes_of_def magicWebsocketGUID_def)

lemma sample_padded:
  "sha1_pad
    [0x64, 0x47, 0x68, 0x6c, 0x49, 0x48, 0x4e, 0x68, 0x62, 0x58, 0x42, 0x73,
     0x5a, 0x53, 0x42, 0x75, 0x62, 0x32, 0x35, 0x6a, 0x5a, 0x51, 0x3d, 0x3d,
     0x32, 0x35, 0x38, 0x45, 0x41, 0x46, 0x41, 0x35, 0x2d, 0x45, 0x39, 0x31,
     0x34, 0x2d, 0x34, 0x37, 0x44, 0x41, 0x2d, 0x39, 0x35, 0x43, 0x41, 0x2d,
     0x43, 0x35, 0x41, 0x42, 0x30, 0x44, 0x43, 0x38, 0x35, 0x42, 0x31, 0x31] =
    [0x64, 0x47, 0x68, 0x6c, 0x49, 0x48, 0x4e, 0x68, 0x62, 0x58, 0x42, 0x73,
     0x5a, 0x53, 0x42, 0x75, 0x62, 0x32, 0x35, 0x6a, 0x5a, 0x51, 0x3d, 0x3d,
     0x32, 0x35, 0x38, 0x45, 0x41, 0x46, 0x41, 0x35, 0x2d, 0x45, 0x39, 0x31,
     0x34, 0x2d, 0x34, 0x37, 0x44, 0x41, 0x2d, 0x39, 0x35, 0x43, 0x41, 0x2d,
     0x43, 0x35, 0x41, 0x42, 0x30, 0x44, 0x43, 0x38, 0x35, 0x42, 0x31, 0x31,
     0x80, 0x00, 0x00, 0x00] @
    [0x00, 0x00, 0x00, 0x00, 0x00, 0x00, 0x00, 0x00, 0x00, 0x00, 0x00, 0x00,
     0x00, 0x00, 0x00, 0x00, 0x00, 0x00, 0x00, 0x00, 0x00, 0x00, 0x00, 0x00,
     0x00, 0x00, 0x00, 0x00, 0x00, 0x00, 0x00, 0x00, 0x00, 0x00, 0x00, 0x00,
     0x00, 0x00, 0x00, 0x00, 0x00, 0x00, 0x00, 0x00, 0x00, 0x00, 0x00, 0x00,
     0x00, 0x00, 0x00, 0x00, 0x00, 0x00, 0x00, 0x00, 0x00, 0x00, 0x00, 0x00,
     0x00, 0x00, 0x01, 0xe0]"
  by (simp add: sha1_pad_def be64_bytes_def replicate_numeral)

lemma sample_block1_words:
  "words_of
    [0x64, 0x47, 0x68, 0x6c, 0x49, 0x48, 0x4e, 0x68, 0x62, 0x58, 0x42, 0x73,
     0x5a, 0x53, 0x42, 0x75, 0x62, 0x32, 0x35, 0x6a, 0x5a, 0x51, 0x3d, 0x3d,
     0x32, 0x35, 0x38, 0x45, 0x41, 0x46, 0x41, 0x35, 0x2d, 0x45, 0x39, 0x31,
     0x34, 0x2d, 0x34, 0x37, 0x44, 0x41, 0x2d, 0x39, 0x35, 0x43, 0x41, 0x2d,
     0x43, 0x35, 0x41, 0x42, 0x30, 0x44, 0x43, 0x38, 0x35, 0x42, 0x31, 0x31,
     0x80, 0x00, 0x00, 0x00] =
    [0x6447686C,
     0x49484E68,
     0x62584273,
     0x5A534275,
     0x6232356A,
     0x5A513D3D,
     0x32353845,
     0x41464135,
     0x2D453931,
     0x342D3437,
     0x44412D39,
     0x3543412D,
     0x43354142,
     0x30444338,
     0x35423131,
     0x80000000]"
  by simp

lemma sample_block1_rounds_20:
  "sha1_rounds 20 0
     ([0x6447686C, 0x49484E68, 0x62584273, 0x5A534275, 0x6232356A, 0x5A513D3D,
       0x32353845, 0x41464135, 0x2D453931, 0x342D3437, 0x44412D39, 0x3543412D,
       0x43354142, 0x30444338, 0x35423131, 0x80000000],
      0x67452301, 0xEFCDAB89, 0x98BADCFE, 0x10325476, 0xC3D2E1F0) =
     ([0x6FB4BCB6, 0x460B16E3, 0x599219AE, 0x35BF9369, 0x3267458E, 0xF828FD04,
       0x753A96A7, 0x6336F612, 0xC3D66383, 0x06EB86F9, 0x73B4FD42, 0xA503C5B8,
       0x15CDAE35, 0x531E5DC5, 0x6FB6B7D0, 0x6C16E4AC],
      0x091AB97C, 0x8DC510B6, 0xDFAECA5A, 0x75F6BD5D, 0x2801311A)"
  by (simp add: sha1_step_eval)

lemma sample_block1_rounds_40:
  "sha1_rounds 40 20
     ([0x6FB4BCB6, 0x460B16E3, 0x599219AE, 0x35BF9369, 0x3267458E, 0xF828FD04,
       0x753A96A7, 0x6336F612, 0xC3D66383, 0x06EB86F9, 0x73B4FD42, 0xA503C5B8,
       0x15CDAE35, 0x531E5DC5, 0x6FB6B7D0, 0x6C16E4AC],
      0x091AB97C, 0x8DC510B6, 0xDFAECA5A, 0x75F6BD5D, 0x2801311A) =
     ([0xCE8628B4, 0x415DBA9E, 0x2792F049, 0x8E9B79E7, 0x79C425C5, 0x6353B49D,
       0x00994218, 0x8A950ED1, 0xAF5D0B99, 0xFD9883DE, 0x1ED8FFEB, 0xF007FF28,
       0x425E3674, 0x059631C0, 0xAD6C3C31, 0x860B71D7],
      0x2BA2C83E, 0xD0869081, 0x1A1D8209, 0xD3334889, 0x2779E4F2)"
  by (simp add: sha1_step_eval)

lemma sample_block1_rounds_60:
  "sha1_rounds 60 40
     ([0xCE8628B4, 0x415DBA9E, 0x2792F049, 0x8E9B79E7, 0x79C425C5, 0x6353B49D,
       0x00994218, 0x8A950ED1, 0xAF5D0B99, 0xFD9883DE, 0x1ED8FFEB, 0xF007FF28,
       0x425E3674, 0x059631C0, 0xAD6C3C31, 0x860B71D7],
      0x2BA2C83E, 0xD0869081, 0x1A1D8209, 0xD3334889, 0x2779E4F2) =
     ([0x0ACF5108, 0xC2B479DA, 0x6C93370A, 0xF7935BA1, 0xE91C91C1, 0xBED165A2,
       0x4C3E4ABE, 0x50D96238, 0xB6587DDE, 0x1A2EE6E6, 0x2D335896, 0xF3495D0B,
       0xF30E0A1D, 0x32CE5459, 0x7165E3B8, 0xAB05FF94],
      0x4872D85A, 0xD284F163, 0x83091F0B, 0x1BBDBFBD, 0x9F8490BC)"
  by (simp add: sha1_step_eval)

lemma sample_block1_rounds_80:
  "sha1_rounds 80 60
     ([0x0ACF5108, 0xC2B479DA, 0x6C93370A, 0xF7935BA1, 0xE91C91C1, 0xBED165A2,
       0x4C3E4ABE, 0x50D96238, 0xB6587DDE, 0x1A2EE6E6, 0x2D335896, 0xF3495D0B,
       0xF30E0A1D, 0x32CE5459, 0x7165E3B8, 0xAB05FF94],
      0x4872D85A, 0xD284F163, 0x83091F0B, 0x1BBDBFBD, 0x9F8490BC) =
     ([0xD5E93E51, 0xB768A0A3, 0xE87859BC, 0x68368A36, 0xD32E35C1, 0x7B8F5837,
       0x62F3B65F, 0xDB2D892B, 0x581B1F86, 0x98A17A62, 0x0F495849, 0x4FE048DC,
       0x12D3A675, 0x6E436C64, 0xFF118681, 0x0352EFF7],
      0xF48A5426, 0x835995E1, 0x25C11EFB, 0x4A45C402, 0x9A73C2F2)"
  by (simp add: sha1_step_eval)

lemma sample_block1:
  "sha1_block (0x67452301, 0xEFCDAB89, 0x98BADCFE, 0x10325476, 0xC3D2E1F0)
    [0x64, 0x47, 0x68, 0x6c, 0x49, 0x48, 0x4e, 0x68, 0x62, 0x58, 0x42, 0x73,
     0x5a, 0x53, 0x42, 0x75, 0x62, 0x32, 0x35, 0x6a, 0x5a, 0x51, 0x3d, 0x3d,
     0x32, 0x35, 0x38, 0x45, 0x41, 0x46, 0x41, 0x35, 0x2d, 0x45, 0x39, 0x31,
     0x34, 0x2d, 0x34, 0x37, 0x44, 0x41, 0x2d, 0x39, 0x35, 0x43, 0x41, 0x2d,
     0x43, 0x35, 0x41, 0x42, 0x30, 0x44, 0x43, 0x38, 0x35, 0x42, 0x31, 0x31,
     0x80, 0x00, 0x00, 0x00] =
    (0x5BCF7727, 0x7327416A, 0xBE7BFBF9, 0x5A781878, 0x5E46A4E2)"
  by (simp add: sha1_block_def sample_block1_words sha1_rounds_80
      sample_block1_rounds_20 sample_block1_rounds_40 sample_block1_rounds_60 sample_block1_rounds_80 add32_def)

lemma sample_block2_words:
  "words_of
    [0x00, 0x00, 0x00, 0x00, 0x00, 0x00, 0x00, 0x00, 0x00, 0x00, 0x00, 0x00,
     0x00, 0x00, 0x00, 0x00, 0x00, 0x00, 0x00, 0x00, 0x00, 0x00, 0x00, 0x00,
     0x00, 0x00, 0x00, 0x00, 0x00, 0x00, 0x00, 0x00, 0x00, 0x00, 0x00, 0x00,
     0x00, 0x00, 0x00, 0x00, 0x00, 0x00, 0x00, 0x00, 0x00, 0x00, 0x00, 0x00,
     0x00, 0x00, 0x00, 0x00, 0x00, 0x00, 0x00, 0x00, 0x00, 0x00, 0x00, 0x00,
     0x00, 0x00, 0x01, 0xe0] =
    [0x00000000,
     0x00000000,
     0x00000000,
     0x00000000,
     0x00000000,
     0x00000000,
     0x00000000,
     0x00000000,
     0x00000000,
     0x00000000,
     0x00000000,
     0x00000000,
     0x00000000,
     0x00000000,
     0x00000000,
     0x000001E0]"
  by simp

lemma sample_block2_rounds_20:
  "sha1_rounds 20 0
     ([0x00000000, 0x00000000, 0x00000000, 0x00000000, 0x00000000, 0x00000000,
       0x00000000, 0x00000000, 0x00000000, 0x00000000, 0x00000000, 0x00000000,
       0x00000000, 0x00000000, 0x00000000, 0x000001E0],
      0x5BCF7727, 0x7327416A, 0xBE7BFBF9, 0x5A781878, 0x5E46A4E2) =
     ([0x00000000, 0x00000780, 0x00000000, 0x000003C0, 0x00000F00, 0x00000000,
       0x00000000, 0x00001E00, 0x00000000, 0x00000CC0, 0x00003C00, 0x00000440,
       0x00000000, 0x00007800, 0x00000F00, 0x00003300],
      0x2A008B51, 0x2F193A09, 0x9C8663C1, 0x8EB5D103, 0x261B7C9A)"
  by (simp add: sha1_step_eval)

lemma sample_block2_rounds_40:
  "sha1_rounds 40 20
     ([0x00000000, 0x00000780, 0x00000000, 0x000003C0, 0x00000F00, 0x00000000,
       0x00000000, 0x00001E00, 0x00000000, 0x00000CC0, 0x00003C00, 0x00000440,
       0x00000000, 0x00007800, 0x00000F00, 0x00003300],
      0x2A008B51, 0x2F193A09, 0x9C8663C1, 0x8EB5D103, 0x261B7C9A) =
     ([0x00000000, 0x0000CC00, 0x0003C000, 0x00004380, 0x00000000, 0x00078F00,
       0x0000FF00, 0x00032680, 0x000F0000, 0x0000F000, 0x00003300, 0x001EFF00,
       0x00000000, 0x000CB800, 0x003C0000, 0x00040B00],
      0x6F698F1A, 0xC6FF0CD3, 0xDE5AB7BC, 0x5F6F3CBB, 0x1DA48A85)"
  by (simp add: sha1_step_eval)

lemma sample_block2_rounds_60:
  "sha1_rounds 60 40
     ([0x00000000, 0x0000CC00, 0x0003C000, 0x00004380, 0x00000000, 0x00078F00,
       0x0000FF00, 0x00032680, 0x000F0000, 0x0000F000, 0x00003300, 0x001EFF00,
       0x00000000, 0x000CB800, 0x003C0000, 0x00040B00],
      0x6F698F1A, 0xC6FF0CD3, 0xDE5AB7BC, 0x5F6F3CBB, 0x1DA48A85) =
     ([0x00F00000, 0x000FC300, 0x0000F000, 0x01EFBB00, 0x00000000, 0x00CC0000,
       0x03C0F000, 0x00438000, 0x00000000, 0x078F0000, 0x00FF0000, 0x03269E00,
       0x0F000000, 0x00F0F000, 0x00333C00, 0x1EFF8800],
      0x56119F19, 0x085EB2FE, 0x484A25C5, 0xC140CFE8, 0x686DA050)"
  by (simp add: sha1_step_eval)

lemma sample_block2_rounds_80:
  "sha1_rounds 80 60
     ([0x00F00000, 0x000FC300, 0x0000F000, 0x01EFBB00, 0x00000000, 0x00CC0000,
       0x03C0F000, 0x00438000, 0x00000000, 0x078F0000, 0x00FF0000, 0x03269E00,
       0x0F000000, 0x00F0F000, 0x00333C00, 0x1EFF8800],
      0x56119F19, 0x085EB2FE, 0x484A25C5, 0xC140CFE8, 0x686DA050) =
     ([0x00F0F000, 0x78FF0000, 0x0FF30C00, 0x3387F000, 0xF0000000, 0x0FC43400,
       0x00F00000, 0xEFB84801, 0x000FF000, 0xCC00F000, 0xC0F0F003, 0x439E0000,
       0x00000000, 0x8F0C0C07, 0xFF3C0000, 0x269A0403],
      0x57AAD805, 0x4D3B0DAC, 0xD27A4A0D, 0x74C040CD, 0x54782008)"
  by (simp add: sha1_step_eval)

lemma sample_block2:
  "sha1_block (0x5BCF7727, 0x7327416A, 0xBE7BFBF9, 0x5A781878, 0x5E46A4E2)
    [0x00, 0x00, 0x00, 0x00, 0x00, 0x00, 0x00, 0x00, 0x00, 0x00, 0x00, 0x00,
     0x00, 0x00, 0x00, 0x00, 0x00, 0x00, 0x00, 0x00, 0x00, 0x00, 0x00, 0x00,
     0x00, 0x00, 0x00, 0x00, 0x00, 0x00, 0x00, 0x00, 0x00, 0x00, 0x00, 0x00,
     0x00, 0x00, 0x00, 0x00, 0x00, 0x00, 0x00, 0x00, 0x00, 0x00, 0x00, 0x00,
     0x00, 0x00, 0x00, 0x00, 0x00, 0x00, 0x00, 0x00, 0x00, 0x00, 0x00, 0x00,
     0x00, 0x00, 0x01, 0xe0] =
    (0xB37A4F2C, 0xC0624F16, 0x90F64606, 0xCF385945, 0xB2BEC4EA)"
  by (simp add: sha1_block_def sample_block2_words sha1_rounds_80
      sample_block2_rounds_20 sample_block2_rounds_40 sample_block2_rounds_60 sample_block2_rounds_80 add32_def)

lemma sample_digest:
  "sha1_Sum
    [0x64, 0x47, 0x68, 0x6c, 0x49, 0x48, 0x4e, 0x68, 0x62, 0x58, 0x42, 0x73,
     0x5a, 0x53, 0x42, 0x75, 0x62, 0x32, 0x35, 0x6a, 0x5a, 0x51, 0x3d, 0x3d,
     0x32, 0x35, 0x38, 0x45, 0x41, 0x46, 0x41, 0x35, 0x2d, 0x45, 0x39, 0x31,
     0x34, 0x2d, 0x34, 0x37, 0x44, 0x41, 0x2d, 0x39, 0x35, 0x43, 0x41, 0x2d,
     0x43, 0x35, 0x41, 0x42, 0x30, 0x44, 0x43, 0x38, 0x35, 0x42, 0x31, 0x31] =
    [0xb3, 0x7a, 0x4f, 0x2c, 0xc0, 0x62, 0x4f, 0x16, 0x90, 0xf6, 0x46, 0x06,
     0xcf, 0x38, 0x59, 0x45, 0xb2, 0xbe, 0xc4, 0xea]"
proof -
  have "sha1_blocks (0x67452301, 0xEFCDAB89, 0x98BADCFE, 0x10325476, 0xC3D2E1F0)
     ([0x64, 0x47, 0x68, 0x6c, 0x49, 0x48, 0x4e, 0x68, 0x62, 0x58, 0x42, 0x73,
      0x5a, 0x53, 0x42, 0x75, 0x62, 0x32, 0x35, 0x6a, 0x5a, 0x51, 0x3d, 0x3d,
      0x32, 0x35, 0x38, 0x45, 0x41, 0x46, 0x41, 0x35, 0x2d, 0x45, 0x39, 0x31,
      0x34, 0x2d, 0x34, 0x37, 0x44, 0x41, 0x2d, 0x39, 0x35, 0x43, 0x41, 0x2d,
      0x43, 0x35, 0x41, 0x42, 0x30, 0x44, 0x43, 0x38, 0x35, 0x42, 0x31, 0x31,
      0x80, 0x00, 0x00, 0x00] @
      [0x00, 0x00, 0x00, 0x00, 0x00, 0x00, 0x00, 0x00, 0x00, 0x00, 0x00, 0x00,
      0x00, 0x00, 0x00, 0x00, 0x00, 0x00, 0x00, 0x00, 0x00, 0x00, 0x00, 0x00,
      0x00, 0x00, 0x00, 0x00, 0x00, 0x00, 0x00, 0x00, 0x00, 0x00, 0x00, 0x00,
      0x00, 0x00, 0x00, 0x00, 0x00, 0x00, 0x00, 0x00, 0x00, 0x00, 0x00, 0x00,
      0x00, 0x00, 0x00, 0x00, 0x00, 0x00, 0x00, 0x00, 0x00, 0x00, 0x00, 0x00,
      0x00, 0x00, 0x01, 0xe0]) =
    sha1_blocks (0x5BCF7727, 0x7327416A, 0xBE7BFBF9, 0x5A781878, 0x5E46A4E2)
      [0x00, 0x00, 0x00, 0x00, 0x00, 0x00, 0x00, 0x00, 0x00, 0x00, 0x00, 0x00,
      0x00, 0x00, 0x00, 0x00, 0x00, 0x00, 0x00, 0x00, 0x00, 0x00, 0x00, 0x00,
      0x00, 0x00, 0x00, 0x00, 0x00, 0x00, 0x00, 0x00, 0x00, 0x00, 0x00, 0x00,
      0x00, 0x00, 0x00, 0x00, 0x00, 0x00, 0x00, 0x00, 0x00, 0x00, 0x00, 0x00,
      0x00, 0x00, 0x00, 0x00, 0x00, 0x00, 0x00, 0x00, 0x00, 0x00, 0x00, 0x00,
      0x00, 0x00, 0x01, 0xe0]"
    by (subst sha1_blocks.simps) (simp add: sample_block1)
  also have "\<dots> = sha1_blocks (0xB37A4F2C, 0xC0624F16, 0x90F64606, 0xCF385945, 0xB2BEC4EA) []"
    by (subst sha1_blocks.simps) (simp add: sample_block2)
  also have "\<dots> = (0xB37A4F2C, 0xC0624F16, 0x90F64606, 0xCF385945, 0xB2BEC4EA)"
    by (subst sha1_blocks.simps) simp
  finally show ?thesis
    by (simp add: sha1_Sum_def sample_padded be32_bytes_def)
qed

lemma sample_base64:
  "EncodeToString
    [0xb3, 0x7a, 0x4f, 0x2c, 0xc0, 0x62, 0x4f, 0x16, 0x90, 0xf6, 0x46, 0x06,
     0xcf, 0x38, 0x59, 0x45, 0xb2, 0xbe, 0xc4, 0xea] =
    ''s3pPLMBiTxaQ9kYGzzhZRbK+xOo=''"
  by (simp add: encodeStd_def)

text \<open>
  C4. The accept key is a function of the request key alone:
  \<open>base64(SHA-1(key + "258EAFA5-E914-47DA-95CA-C5AB0DC85B11"))\<close>; for the request key
  \<open>dGhlIHNhbXBsZSBub25jZQ==\<close> it is \<open>s3pPLMBiTxaQ9kYGzzhZRbK+xOo=\<close>.
\<close>

theorem hashKey_accept_key:
  "hashKey key =
     EncodeToString (sha1_Sum (bytes_of (key @ ''258EAFA5-E914-47DA-95CA-C5AB0DC85B11''))) \<and>
   hashKey ''dGhlIHNhbXBsZSBub25jZQ=='' = ''s3pPLMBiTxaQ9kYGzzhZRbK+xOo=''"
  using sample_message sample_digest sample_base64
  by (simp add: hashKey_def magicWebsocketGUID_def)

end
